theory Spec2Isabelle
  imports Complex_Main
begin

section \<open>Errors, vectors and tensors\<close>

text \<open>
  Tensors are nested lists of reals (floating point is idealised to the reals; the
  decimal constants of the source are kept digit for digit).  A displacement is a triple;
  a tensor whose last axis has size 3 is a tensor of triples.  Every explicit
  \<^verbatim>\<open>raise\<close> and \<^verbatim>\<open>assert\<close> of the source, and the shape and index failures of
  \<^verbatim>\<open>view\<close>, \<^verbatim>\<open>index_add_\<close> and indexed assignment, are values of type \<open>error\<close>.
  Division follows HOL (\<open>x / 0 = 0\<close>), so statements about quotients are made away from
  a zero denominator only.
\<close>

datatype error =
    ValueError
  | AssertionError
  | NotImplementedError
  | KeyError
  | IndexError
  | RuntimeError

type_synonym vec3 = "real \<times> real \<times> real"

definition comp :: "vec3 \<Rightarrow> nat \<Rightarrow> real" where
  "comp v i = (case v of (x, y, z) \<Rightarrow> if i = 0 then x else if i = 1 then y else z)"

definition vsum :: "vec3 \<Rightarrow> real" where
  "vsum v = (case v of (x, y, z) \<Rightarrow> x + y + z)"

definition vprod :: "vec3 \<Rightarrow> real" where
  "vprod v = (case v of (x, y, z) \<Rightarrow> x * y * z)"

definition vadd :: "vec3 \<Rightarrow> vec3 \<Rightarrow> vec3" where
  "vadd u v = (case u of (a, b, c) \<Rightarrow> case v of (x, y, z) \<Rightarrow> (a + x, b + y, c + z))"

definition vmul :: "vec3 \<Rightarrow> vec3 \<Rightarrow> vec3" where
  "vmul u v = (case u of (a, b, c) \<Rightarrow> case v of (x, y, z) \<Rightarrow> (a * x, b * y, c * z))"

definition smul :: "real \<Rightarrow> vec3 \<Rightarrow> vec3" where
  "smul s v = (case v of (x, y, z) \<Rightarrow> (s * x, s * y, s * z))"

definition vzero :: vec3 where
  "vzero = (0, 0, 0)"

definition norm2 :: "vec3 \<Rightarrow> real" where
  \<comment> \<open>\<^verbatim>\<open>(xyz**2).sum(-1)\<close>\<close>
  "norm2 v = (case v of (x, y, z) \<Rightarrow> x\<^sup>2 + y\<^sup>2 + z\<^sup>2)"

definition tmap :: "('a \<Rightarrow> 'b) \<Rightarrow> 'a list list list \<Rightarrow> 'b list list list" where
  "tmap f = map (map (map f))"

definition tmap2 :: "('a \<Rightarrow> 'b \<Rightarrow> 'c) \<Rightarrow> 'a list list list \<Rightarrow> 'b list list list \<Rightarrow> 'c list list list" where
  "tmap2 f = map2 (map2 (map2 f))"

definition bcast :: "('p \<Rightarrow> 'a \<Rightarrow> 'b) \<Rightarrow> 'p list \<Rightarrow> 'a list list list \<Rightarrow> 'b list list list" where
  \<comment> \<open>a per-primitive array broadcast against the last axis of a batch x electron x primitive tensor\<close>
  "bcast f ps = map (map (map2 f ps))"

section \<open>Spherical harmonics (spherical\_harmonics.py)\<close>

subsection \<open>l = 0\<close>

definition spherical_harmonics_l0 :: "vec3 \<Rightarrow> real" where
  "spherical_harmonics_l0 xyz = 0.2820948 * 1"

definition nabla_spherical_harmonics_l0 :: "vec3 \<Rightarrow> real" where
  "nabla_spherical_harmonics_l0 xyz = 0"

definition grad_spherical_harmonics_l0 :: "vec3 \<Rightarrow> vec3" where
  "grad_spherical_harmonics_l0 xyz = vzero"

definition lap_spherical_harmonics_l0 :: "vec3 \<Rightarrow> real" where
  "lap_spherical_harmonics_l0 xyz = 0"

subsection \<open>l = 1\<close>

definition index_l1 :: "int \<Rightarrow> nat option" where
  \<comment> \<open>\<^verbatim>\<open>index = {-1: 1, 0: 2, 1: 0}\<close>\<close>
  "index_l1 m = (if m = -1 then Some 1 else if m = 0 then Some 2 else if m = 1 then Some 0 else None)"

definition spherical_harmonics_l1 :: "vec3 \<Rightarrow> int \<Rightarrow> error + real" where
  "spherical_harmonics_l1 xyz m =
     (let r = sqrt (norm2 xyz); c = 0.4886025119029199 in
      case index_l1 m of
        None \<Rightarrow> Inl KeyError
      | Some i \<Rightarrow> Inr (c * comp xyz i / r))"

definition nabla_spherical_harmonics_l1 :: "vec3 \<Rightarrow> int \<Rightarrow> error + real" where
  "nabla_spherical_harmonics_l1 xyz m =
     (let r = sqrt (norm2 xyz); r3 = r ^ 3; c = 0.4886025119029199 in
      case index_l1 m of
        None \<Rightarrow> Inl KeyError
      | Some i \<Rightarrow> Inr (c * (1.0 / r - comp xyz i * vsum xyz / r3)))"

definition grad_spherical_harmonics_l1 :: "vec3 \<Rightarrow> int \<Rightarrow> vec3 option" where
  \<comment> \<open>no branch matches for m outside -1..1: the Python function falls off its end (None)\<close>
  "grad_spherical_harmonics_l1 xyz m =
     (let r = sqrt (norm2 xyz); r3 = r ^ 3; c = 0.4886025119029199; p = c / r3 in
      case xyz of (x, y, z) \<Rightarrow>
        if m = -1 then Some (smul p (- y * x, x\<^sup>2 + z\<^sup>2, - y * z))
        else if m = 0 then Some (smul p (- z * x, - z * y, x\<^sup>2 + y\<^sup>2))
        else if m = 1 then Some (smul p (y\<^sup>2 + z\<^sup>2, - x * y, - x * z))
        else None)"

definition lap_spherical_harmonics_l1 :: "vec3 \<Rightarrow> int \<Rightarrow> error + real" where
  "lap_spherical_harmonics_l1 xyz m =
     (let r = sqrt (norm2 xyz); r3 = r ^ 3; c = 0.4886025119029199 in
      case index_l1 m of
        None \<Rightarrow> Inl KeyError
      | Some i \<Rightarrow> Inr (c * (- 2 * comp xyz i / r3)))"

subsection \<open>l = 2\<close>

definition index_l2 :: "int \<Rightarrow> (nat \<times> nat) option" where
  \<comment> \<open>\<^verbatim>\<open>index = {-2: [0, 1], -1: [1, 2], 1: [2, 0]}\<close>\<close>
  "index_l2 m = (if m = -2 then Some (0, 1) else if m = -1 then Some (1, 2)
                 else if m = 1 then Some (2, 0) else None)"

definition spherical_harmonics_l2 :: "vec3 \<Rightarrow> int \<Rightarrow> error + real" where
  "spherical_harmonics_l2 xyz m =
     (let r2 = norm2 xyz in
      if m = 0 then
        (let c0 = 0.31539156525252005 in
         Inr (c0 * (- (comp xyz 0)\<^sup>2 - (comp xyz 1)\<^sup>2 + 2 * (comp xyz 2)\<^sup>2) / r2))
      else if m = 2 then
        (let c2 = 0.5462742152960396 in
         Inr (c2 * ((comp xyz 0)\<^sup>2 - (comp xyz 1)\<^sup>2) / r2))
      else
        (let cm = 1.0925484305920792 in
         case index_l2 m of
           None \<Rightarrow> Inl KeyError
         | Some (i, j) \<Rightarrow> Inr (cm * comp xyz i * comp xyz j / r2)))"

definition nabla_spherical_harmonics_l2 :: "vec3 \<Rightarrow> int \<Rightarrow> error + real" where
  "nabla_spherical_harmonics_l2 xyz m =
     (let r = sqrt (norm2 xyz); r2 = r\<^sup>2; r3 = r ^ 3 in
      if m = 0 then
        (let c0 = 0.31539156525252005 in
         Inr (c0 * ((- 2 * comp xyz 0 - 2 * comp xyz 1 + 4 * comp xyz 2) / r2
                    - 2 * (- (comp xyz 0)\<^sup>2 - (comp xyz 1)\<^sup>2 + 2 * (comp xyz 2)\<^sup>2)
                        * vsum xyz / r3)))
      else if m = 2 then
        (let c2 = 0.5462742152960396 in
         Inr (c2 * (2 * (comp xyz 0 - comp xyz 1) / r2
                    - 2 * ((comp xyz 0)\<^sup>2 - (comp xyz 1)\<^sup>2) * vsum xyz / r3)))
      else
        (let cm = 1.0925484305920792 in
         case index_l2 m of
           None \<Rightarrow> Inl KeyError
         | Some (i, j) \<Rightarrow>
             Inr (cm * ((comp xyz i + comp xyz j) / r2
                        - 2 * comp xyz i * comp xyz j * vsum xyz / r3))))"

definition grad_spherical_harmonics_l2 :: "vec3 \<Rightarrow> int \<Rightarrow> vec3 option" where
  "grad_spherical_harmonics_l2 xyz m =
     (let r = sqrt (norm2 xyz); r4 = r ^ 4 in
      case xyz of (x, y, z) \<Rightarrow>
        if m = -2 then
          (let c0 = 0.31539156525252005; p = c0 / r4 in
           Some (smul p (y * (- (x\<^sup>2) + y\<^sup>2 + z\<^sup>2),
                         x * (- (y\<^sup>2) + x\<^sup>2 + z\<^sup>2),
                         - 2 * vprod xyz)))
        else if m = -1 then
          (let c0 = 0.31539156525252005; p = c0 / r4 in
           Some (smul p (- 2 * vprod xyz,
                         z * (- (y\<^sup>2) + x\<^sup>2 + z\<^sup>2),
                         y * (- (z\<^sup>2) + x\<^sup>2 + y\<^sup>2))))
        else if m = 0 then
          (let c0 = 0.31539156525252005; p = c0 / r4 in
           Some (smul p (- 6 * x * z * z, - 6 * y * z * z, 6 * x * x * z + 6 * y * y * z)))
        else if m = 1 then
          (let c0 = 0.31539156525252005; p = c0 / r4 in
           Some (smul p (z * (- x * x + y * y + z * z),
                         - 2 * vprod xyz,
                         x * (x * x + y * y - z * z))))
        else if m = 2 then
          (let c0 = 0.5462742152960396; p = c0 / r4 in
           Some (smul p (4 * x * y * y + 2 * x * z * z,
                         - 4 * x * x * y - 2 * y * z * z,
                         - 2 * z * (x * x - y * y))))
        else None)"

definition lap_spherical_harmonics_l2 :: "vec3 \<Rightarrow> int \<Rightarrow> error + real" where
  "lap_spherical_harmonics_l2 xyz m =
     (let r = sqrt (norm2 xyz); r4 = r ^ 4; r6 = r ^ 6 in
      case xyz of (x, y, z) \<Rightarrow>
        if m = 0 then
          (let c0 = 0.31539156525252005 in
           Inr (c0 * (6 / r6 * (x\<^sup>2 + y\<^sup>2)\<^sup>2 - z\<^sup>2 * (x\<^sup>2 + y\<^sup>2 - 2 * z\<^sup>2))))
        else if m = 2 then
          (let c2 = 0.5462742152960396 in
           Inr (c2 * (6 / r6 * z\<^sup>2 * (y\<^sup>2 - x\<^sup>2) + (y\<^sup>2)\<^sup>2 - (x\<^sup>2)\<^sup>2)))
        else
          (let cm = 1.0925484305920792 in
           case index_l2 m of
             None \<Rightarrow> Inl KeyError
           | Some (i, j) \<Rightarrow> Inr (cm * (- 6 * comp xyz i * comp xyz j / r4))))"

subsection \<open>Dispatch over (l, m)\<close>

text \<open>
  \<^verbatim>\<open>get_spherical_harmonics\<close> and \<^verbatim>\<open>get_grad_spherical_harmonics\<close> start from a zero
  tensor and overwrite the slice of primitives selected by each \<open>(l, m)\<close> of the loops
  \<^verbatim>\<open>for mval in [-1, 0, 1]\<close> and \<^verbatim>\<open>for mval in [-2, -1, 0, 1, 2]\<close>.  The model
  does the same for one primitive: \<open>sel\<close> is the overwrite of a selected entry
  (the loops only pass an \<open>mval\<close> of the list, for which the formula functions return a
  value; any other primitive keeps the zero it started with).
\<close>

definition sel :: "bool \<Rightarrow> error + real \<Rightarrow> real \<Rightarrow> real" where
  "sel b new old = (if b then (case new of Inr y \<Rightarrow> y | Inl _ \<Rightarrow> old) else old)"

definition selv :: "bool \<Rightarrow> vec3 option \<Rightarrow> vec3 \<Rightarrow> vec3" where
  "selv b new old = (if b then (case new of Some y \<Rightarrow> y | None \<Rightarrow> old) else old)"

definition get_spherical_harmonics1 :: "vec3 \<Rightarrow> int \<Rightarrow> int \<Rightarrow> int \<Rightarrow> real" where
  "get_spherical_harmonics1 xyz lval m derivative =
     (let Y = 0;
          Y = (if lval = 0 \<and> derivative = 0 then spherical_harmonics_l0 xyz else Y);
          Y = (if lval = 0 \<and> derivative = 1 then nabla_spherical_harmonics_l0 xyz else Y);
          Y = fold (\<lambda>mval Y.
                 let ind = (lval = 1 \<and> m = mval);
                     Y = (if derivative = 0 then sel ind (spherical_harmonics_l1 xyz mval) Y else Y);
                     Y = (if derivative = 1 then sel ind (nabla_spherical_harmonics_l1 xyz mval) Y else Y);
                     Y = (if derivative = 2 then sel ind (lap_spherical_harmonics_l1 xyz mval) Y else Y)
                 in Y) [-1, 0, 1] Y;
          Y = fold (\<lambda>mval Y.
                 let ind = (lval = 2 \<and> m = mval);
                     Y = (if derivative = 0 then sel ind (spherical_harmonics_l2 xyz mval) Y else Y);
                     Y = (if derivative = 1 then sel ind (nabla_spherical_harmonics_l2 xyz mval) Y else Y);
                     Y = (if derivative = 2 then sel ind (lap_spherical_harmonics_l2 xyz mval) Y else Y)
                 in Y) [-2, -1, 0, 1, 2] Y
      in Y)"

definition get_grad_spherical_harmonics1 :: "vec3 \<Rightarrow> int \<Rightarrow> int \<Rightarrow> vec3" where
  "get_grad_spherical_harmonics1 xyz lval m =
     (let Y = vzero;
          Y = (if lval = 0 then grad_spherical_harmonics_l0 xyz else Y);
          Y = fold (\<lambda>mval Y. selv (lval = 1 \<and> m = mval) (grad_spherical_harmonics_l1 xyz mval) Y)
                [-1, 0, 1] Y;
          Y = fold (\<lambda>mval Y. selv (lval = 2 \<and> m = mval) (grad_spherical_harmonics_l2 xyz mval) Y)
                [-2, -1, 0, 1, 2] Y
      in Y)"

definition get_spherical_harmonics ::
  "vec3 list list list \<Rightarrow> int list \<Rightarrow> int list \<Rightarrow> int \<Rightarrow> real list list list" where
  "get_spherical_harmonics xyz lval m derivative =
     bcast (\<lambda>(l, mm) v. get_spherical_harmonics1 v l mm derivative) (zip lval m) xyz"

definition get_grad_spherical_harmonics ::
  "vec3 list list list \<Rightarrow> int list \<Rightarrow> int list \<Rightarrow> vec3 list list list" where
  "get_grad_spherical_harmonics xyz lval m =
     bcast (\<lambda>(l, mm) v. get_grad_spherical_harmonics1 v l mm) (zip lval m) xyz"


section \<open>Cartesian harmonics\<close>

text \<open>
  Modelled from the spec: \<^verbatim>\<open>fast_power\<close> (qmctorch/utils, not part of the sources).
  The spec says the cartesian harmonic \<open>x^kx * y^ky * z^kz\<close> is "computed via repeated
  multiplication"; the masks for the exponents 0 and 2 are shortcuts of that computation.
\<close>

definition fast_power :: "vec3 \<Rightarrow> nat \<times> nat \<times> nat \<Rightarrow> vec3" where
  "fast_power xyz k = (case xyz of (x, y, z) \<Rightarrow> case k of (kx, ky, kz) \<Rightarrow> (x ^ kx, y ^ ky, z ^ kz))"

text \<open>
  The four closures of \<^verbatim>\<open>CartesianHarmonics\<close>, for one primitive.  \<open>k - 1\<close> and
  \<open>k - 2\<close> on \<open>nat\<close> are the source's \<^verbatim>\<open>km1[km1 < 0] = 0\<close> and
  \<^verbatim>\<open>km2[km2 < 0] = 0\<close>.
\<close>

definition cart_kernel :: "vec3 \<Rightarrow> nat \<times> nat \<times> nat \<Rightarrow> real" where
  "cart_kernel xyz k = vprod (fast_power xyz k)"

definition cart_first_derivative_kernel :: "vec3 \<Rightarrow> nat \<times> nat \<times> nat \<Rightarrow> vec3" where
  "cart_first_derivative_kernel xyz k =
     (case k of (kx, ky, kz) \<Rightarrow>
      let xyz_k = fast_power xyz k;
          xyz_km1 = fast_power xyz (kx - 1, ky - 1, kz - 1);
          dx = real kx * comp xyz_km1 0 * comp xyz_k 1 * comp xyz_k 2;
          dy = real ky * comp xyz_k 0 * comp xyz_km1 1 * comp xyz_k 2;
          dz = real kz * comp xyz_k 0 * comp xyz_k 1 * comp xyz_km1 2
      in (dx, dy, dz))"

definition cart_second_derivative_kernel :: "vec3 \<Rightarrow> nat \<times> nat \<times> nat \<Rightarrow> vec3" where
  "cart_second_derivative_kernel xyz k =
     (case k of (kx, ky, kz) \<Rightarrow>
      let xyz_k = fast_power xyz k;
          xyz_km2 = fast_power xyz (kx - 2, ky - 2, kz - 2);
          d2x = real kx * (real kx - 1) * comp xyz_km2 0 * comp xyz_k 1 * comp xyz_k 2;
          d2y = real ky * (real ky - 1) * comp xyz_k 0 * comp xyz_km2 1 * comp xyz_k 2;
          d2z = real kz * (real kz - 1) * comp xyz_k 0 * comp xyz_k 1 * comp xyz_km2 2
      in (d2x, d2y, d2z))"

definition cart_mixed_second_derivative_kernel :: "vec3 \<Rightarrow> nat \<times> nat \<times> nat \<Rightarrow> vec3" where
  "cart_mixed_second_derivative_kernel xyz k =
     (case k of (kx, ky, kz) \<Rightarrow>
      let xyz_k = fast_power xyz k;
          xyz_km1 = fast_power xyz (kx - 1, ky - 1, kz - 1);
          dxdy = real kx * comp xyz_km1 0 * real ky * comp xyz_km1 1 * comp xyz_k 2;
          dxdz = real kx * comp xyz_km1 0 * comp xyz_k 1 * real kz * comp xyz_km1 2;
          dydz = comp xyz_k 0 * real ky * comp xyz_km1 1 * real kz * comp xyz_km1 2
      in (dxdy, dxdz, dydz))"

text \<open>
  A harmonics or radial call returns one tensor when one derivative order is asked for
  and a list of tensors otherwise; a tensor is batch x electron x primitive, of reals or
  (when the last axis is the spatial one) of triples.
\<close>

datatype htensor = TS "real list list list" | TV "vec3 list list list"

datatype hresult = Single htensor | Multi "htensor list"

definition pack :: "htensor list \<Rightarrow> hresult" where
  \<comment> \<open>\<^verbatim>\<open>if len(derivative) == 1: return output[0] else: return output\<close>\<close>
  "pack output = (case output of [t] \<Rightarrow> Single t | _ \<Rightarrow> Multi output)"

fun collect :: "(error + 'a) list \<Rightarrow> error + 'a list" where
  "collect [] = Inr []"
| "collect (x # xs) =
     (case x of
        Inl e \<Rightarrow> Inl e
      | Inr y \<Rightarrow> (case collect xs of Inl e \<Rightarrow> Inl e | Inr ys \<Rightarrow> Inr (y # ys)))"

definition cart_fns ::
  "vec3 list list list \<Rightarrow> (nat \<times> nat \<times> nat) list \<Rightarrow> bool \<Rightarrow> bool \<Rightarrow> int \<Rightarrow> error + htensor" where
  \<comment> \<open>\<^verbatim>\<open>fns[d]()\<close> on the four-element list \<^verbatim>\<open>fns\<close>, with Python's negative indices\<close>
  "cart_fns xyz k sum_grad sum_hess d =
     (let i = (if d < 0 then d + 4 else d) in
      if i = 0 then Inr (TS (bcast (\<lambda>kk v. cart_kernel v kk) k xyz))
      else if i = 1 then
        Inr (if sum_grad then TS (bcast (\<lambda>kk v. vsum (cart_first_derivative_kernel v kk)) k xyz)
             else TV (bcast (\<lambda>kk v. cart_first_derivative_kernel v kk) k xyz))
      else if i = 2 then
        Inr (if sum_hess then TS (bcast (\<lambda>kk v. vsum (cart_second_derivative_kernel v kk)) k xyz)
             else TV (bcast (\<lambda>kk v. cart_second_derivative_kernel v kk) k xyz))
      else if i = 3 then Inr (TV (bcast (\<lambda>kk v. cart_mixed_second_derivative_kernel v kk) k xyz))
      else Inl IndexError)"

definition CartesianHarmonics ::
  "vec3 list list list \<Rightarrow> (nat \<times> nat \<times> nat) list \<Rightarrow> int list \<Rightarrow> bool \<Rightarrow> bool \<Rightarrow> error + hresult" where
  "CartesianHarmonics xyz k derivative sum_grad sum_hess =
     (case collect (map (cart_fns xyz k sum_grad sum_hess) derivative) of
        Inl e \<Rightarrow> Inl e
      | Inr output \<Rightarrow> Inr (pack output))"

definition SphericalHarmonics ::
  "vec3 list list list \<Rightarrow> int list \<Rightarrow> int list \<Rightarrow> int list \<Rightarrow> bool \<Rightarrow> bool \<Rightarrow> error + hresult" where
  "SphericalHarmonics xyz l m derivative sum_grad sum_hess =
     (if \<not> sum_hess then Inl NotImplementedError
      else if sum_grad then
        Inr (pack (map (\<lambda>d. TS (get_spherical_harmonics xyz l m d)) derivative))
      else if derivative \<noteq> [1] then Inl ValueError
      else Inr (Single (TV (get_grad_spherical_harmonics xyz l m))))"

section \<open>The Harmonics class\<close>

text \<open>
  The keyword arguments of the constructor are a record of optional entries (a missing
  key is \<open>None\<close>); the attributes the constructor may or may not set are optional fields
  of the object.  The device selection (\<^verbatim>\<open>cuda\<close>) does not influence any value and is
  left out.
\<close>

record kwargs =
  kw_bas_l :: "int list option"
  kw_bas_m :: "int list option"
  kw_bas_kx :: "nat list option"
  kw_bas_ky :: "nat list option"
  kw_bas_kz :: "nat list option"

record Harmonics =
  htype :: string
  bas_l :: "int list option"
  bas_m :: "int list option"
  bas_k :: "(nat \<times> nat \<times> nat) list option"

definition Harmonics_init :: "string \<Rightarrow> kwargs \<Rightarrow> error + Harmonics" where
  "Harmonics_init type kw =
     (let self = \<lparr>htype = type, bas_l = None, bas_m = None, bas_k = None\<rparr> in
      if type = ''sph'' then
        (case kw_bas_l kw of
           None \<Rightarrow> Inl KeyError
         | Some l \<Rightarrow>
             (case kw_bas_m kw of
                None \<Rightarrow> Inl KeyError
              | Some m \<Rightarrow> Inr (self\<lparr>bas_l := Some l, bas_m := Some m\<rparr>)))
      else if type = ''cart'' then
        (case kw_bas_kx kw of
           None \<Rightarrow> Inl KeyError
         | Some kx \<Rightarrow>
             (case kw_bas_ky kw of
                None \<Rightarrow> Inl KeyError
              | Some ky \<Rightarrow>
                  (case kw_bas_kz kw of
                     None \<Rightarrow> Inl KeyError
                   | Some kz \<Rightarrow>
                       if length kx = length ky \<and> length ky = length kz
                       then Inr (self\<lparr>bas_k := Some (zip kx (zip ky kz))\<rparr>)
                       else Inl RuntimeError)))
      else Inr self)"

definition Harmonics_call ::
  "Harmonics \<Rightarrow> vec3 list list list \<Rightarrow> int list \<Rightarrow> bool \<Rightarrow> bool \<Rightarrow> error + hresult" where
  "Harmonics_call self xyz derivative sum_grad sum_hess =
     (if htype self = ''cart'' then
        (case bas_k self of
           None \<Rightarrow> Inl RuntimeError
         | Some k \<Rightarrow> CartesianHarmonics xyz k derivative sum_grad sum_hess)
      else if htype self = ''sph'' then
        (case bas_l self of
           None \<Rightarrow> Inl RuntimeError
         | Some l \<Rightarrow>
             (case bas_m self of
                None \<Rightarrow> Inl RuntimeError
              | Some m \<Rightarrow> SphericalHarmonics xyz l m derivative sum_grad sum_hess))
      else Inl ValueError)"


section \<open>Radial functions\<close>

text \<open>
  Modelled from the spec: the radial callables \<^verbatim>\<open>radial_slater\<close>,
  \<^verbatim>\<open>radial_gaussian\<close> and their pure variants (radial\_functions.py is not part of
  the sources).  The spec gives their contract: from the distance \<open>r\<close>
  (batch x electron x primitive), the exponent \<open>n\<close> and the decay \<open>\<zeta>\<close> of each primitive
  and the displacement components, return the value \<open>R\<close> and, on request, \<open>dR/dx_k\<close>, the
  diagonal second derivatives and the mixed ones, summed over the spatial axis or not.
  The profile is a parameter acting on one primitive at one point; the call broadcasts it.
\<close>

record radial_fn =
  rad :: "real \<Rightarrow> real \<Rightarrow> real \<Rightarrow> real"
  rad_grad :: "vec3 \<Rightarrow> real \<Rightarrow> real \<Rightarrow> real \<Rightarrow> vec3"
  rad_hess :: "vec3 \<Rightarrow> real \<Rightarrow> real \<Rightarrow> real \<Rightarrow> vec3"
  rad_mixed :: "vec3 \<Rightarrow> real \<Rightarrow> real \<Rightarrow> real \<Rightarrow> vec3"

definition radial_fns ::
  "radial_fn \<Rightarrow> real list list list \<Rightarrow> real list \<Rightarrow> real list \<Rightarrow> vec3 list list list option
     \<Rightarrow> bool \<Rightarrow> bool \<Rightarrow> int \<Rightarrow> error + htensor" where
  "radial_fns rf r n \<zeta> xyz sum_grad sum_hess d =
     (if d = 0 then Inr (TS (bcast (\<lambda>(nn, e) rr. rad rf rr nn e) (zip n \<zeta>) r))
      else case xyz of
        None \<Rightarrow> Inl RuntimeError
      | Some xyz \<Rightarrow>
          (let vr = tmap2 Pair xyz r in
           if d = 1 then
             Inr (if sum_grad
                  then TS (bcast (\<lambda>(nn, e) (v, rr). vsum (rad_grad rf v rr nn e)) (zip n \<zeta>) vr)
                  else TV (bcast (\<lambda>(nn, e) (v, rr). rad_grad rf v rr nn e) (zip n \<zeta>) vr))
           else if d = 2 then
             Inr (if sum_hess
                  then TS (bcast (\<lambda>(nn, e) (v, rr). vsum (rad_hess rf v rr nn e)) (zip n \<zeta>) vr)
                  else TV (bcast (\<lambda>(nn, e) (v, rr). rad_hess rf v rr nn e) (zip n \<zeta>) vr))
           else if d = 3 then
             Inr (TV (bcast (\<lambda>(nn, e) (v, rr). rad_mixed rf v rr nn e) (zip n \<zeta>) vr))
           else Inl IndexError))"

definition radial_call ::
  "radial_fn \<Rightarrow> real list list list \<Rightarrow> real list \<Rightarrow> real list \<Rightarrow> vec3 list list list option
     \<Rightarrow> int list \<Rightarrow> bool \<Rightarrow> bool \<Rightarrow> error + hresult" where
  "radial_call rf r n \<zeta> xyz derivative sum_grad sum_hess =
     (case collect (map (radial_fns rf r n \<zeta> xyz sum_grad sum_hess) derivative) of
        Inl e \<Rightarrow> Inl e
      | Inr output \<Rightarrow> Inr (pack output))"

section \<open>Atomic orbitals (atomic\_orbitals.py)\<close>

text \<open>
  The object, with the attributes the evaluation reads.  \<open>nelec\<close> is the one attribute
  that \<^verbatim>\<open>forward\<close> writes, so \<^verbatim>\<open>forward\<close> returns the object next to its result.
  \<open>norm_cst\<close> is the array stored by the constructor.
\<close>

record AtomicOrbitals =
  nelec :: nat
  norb :: nat
  atom_coords :: "vec3 list"
  nshells :: "nat list"
  index_ctr :: "nat list"
  contract :: bool
  bas_coeffs :: "real list"
  bas_exp :: "real list"
  bas_n :: "real list"
  harmonics :: Harmonics
  radial :: radial_fn
  norm_cst :: "real list"

definition contract_flag :: "nat list \<Rightarrow> bool" where
  \<comment> \<open>\<^verbatim>\<open>self.contract = not len(torch.unique(self.index_ctr)) == len(self.index_ctr)\<close>\<close>
  "contract_flag ictr = (\<not> length (remdups ictr) = length ictr)"

definition bindE :: "error + 'a \<Rightarrow> ('a \<Rightarrow> error + 'b) \<Rightarrow> error + 'b" where
  "bindE x f = (case x of Inl e \<Rightarrow> Inl e | Inr y \<Rightarrow> f y)"

subsection \<open>Positions\<close>

fun chunks_aux :: "nat \<Rightarrow> nat \<Rightarrow> 'a list \<Rightarrow> 'a list list" where
  "chunks_aux 0 n xs = []"
| "chunks_aux (Suc c) n xs = take n xs # chunks_aux c n (drop n xs)"

definition chunks :: "nat \<Rightarrow> 'a list \<Rightarrow> 'a list list" where
  "chunks n xs = chunks_aux (length xs div n) n xs"

definition to_vec3 :: "real list \<Rightarrow> vec3" where
  "to_vec3 xs = (xs ! 0, xs ! 1, xs ! 2)"

definition view_pos :: "nat \<Rightarrow> real list list \<Rightarrow> error + vec3 list list" where
  \<comment> \<open>\<^verbatim>\<open>pos.view(-1, self.nelec, 1, self.ndim)\<close> with \<open>ndim = 3\<close>: the entries in row-major
      order, regrouped; an error when they do not fill whole rows\<close>
  "view_pos ne pos =
     (let flat = concat pos; n = ne * 3 in
      if n = 0 \<or> length flat mod n \<noteq> 0 then Inl RuntimeError
      else Inr (map (\<lambda>row. map to_vec3 (chunks 3 row)) (chunks n flat)))"

definition vsub :: "vec3 \<Rightarrow> vec3 \<Rightarrow> vec3" where
  "vsub u v = (case u of (a, b, c) \<Rightarrow> case v of (x, y, z) \<Rightarrow> (a - x, b - y, c - z))"

definition elec_atom_dist ::
  "AtomicOrbitals \<Rightarrow> real list list \<Rightarrow> error + (vec3 list list list \<times> real list list list)" where
  "elec_atom_dist self pos =
     bindE (view_pos (nelec self) pos) (\<lambda>p.
       let xyz = map (map (\<lambda>e. map (\<lambda>a. vsub e a) (atom_coords self))) p;
           r = tmap (\<lambda>v. sqrt (vsum (vmul v v))) xyz
       in Inr (xyz, r))"

definition repeat_interleave :: "nat list \<Rightarrow> 'a list \<Rightarrow> error + 'a list" where
  \<comment> \<open>a one-element repeat count is broadcast; otherwise one count per entry\<close>
  "repeat_interleave reps xs =
     (let reps = (if length reps = 1 then replicate (length xs) (hd reps) else reps) in
      if length reps \<noteq> length xs then Inl RuntimeError
      else Inr (concat (map2 replicate reps xs)))"

definition repeat_interleave2 :: "nat list \<Rightarrow> 'a list list list \<Rightarrow> error + 'a list list list" where
  "repeat_interleave2 reps t = collect (map (\<lambda>b. collect (map (repeat_interleave reps) b)) t)"

definition process_position ::
  "AtomicOrbitals \<Rightarrow> real list list \<Rightarrow> error + (vec3 list list list \<times> real list list list)" where
  "process_position self pos =
     bindE (elec_atom_dist self pos) (\<lambda>(xyz, r).
     bindE (repeat_interleave2 (nshells self) xyz) (\<lambda>xyz'.
     bindE (repeat_interleave2 (nshells self) r) (\<lambda>r'. Inr (xyz', r'))))"

subsection \<open>Contraction\<close>

definition index_add_row :: "('a \<Rightarrow> 'a \<Rightarrow> 'a) \<Rightarrow> 'a list \<Rightarrow> nat list \<Rightarrow> 'a list \<Rightarrow> error + 'a list" where
  \<comment> \<open>\<^verbatim>\<open>out.index_add_(-1, index, src)\<close> on one row: \<open>out[index[p]] += src[p]\<close> for every p\<close>
  "index_add_row add out index src =
     (if length index \<noteq> length src then Inl RuntimeError
      else if \<exists>i \<in> set index. length out \<le> i then Inl IndexError
      else Inr (fold (\<lambda>(i, v) acc. acc[i := add (acc ! i) v]) (zip index src) out))"

definition index_add2 ::
  "('a \<Rightarrow> 'a \<Rightarrow> 'a) \<Rightarrow> 'a list list list \<Rightarrow> nat list \<Rightarrow> 'a list list list \<Rightarrow> error + 'a list list list" where
  \<comment> \<open>\<^verbatim>\<open>out.index_add_(2, index, src)\<close>: the first two axes of \<open>out\<close> and \<open>src\<close> must agree\<close>
  "index_add2 add out index src =
     (if map length out \<noteq> map length src then Inl RuntimeError
      else collect (map2 (\<lambda>ob sb. collect (map2 (\<lambda>orow srow. index_add_row add orow index srow) ob sb))
                      out src))"

definition zeros :: "nat \<Rightarrow> nat \<Rightarrow> nat \<Rightarrow> 'a \<Rightarrow> 'a list list list" where
  "zeros a b c z = replicate a (replicate b (replicate c z))"

definition contract' :: "AtomicOrbitals \<Rightarrow> real list list list \<Rightarrow> error + real list list list" where
  "contract' self bas =
     (let nbatch = length bas;
          bas = bcast (*) (bas_coeffs self) bas;
          cbas = zeros nbatch (nelec self) (norb self) 0
      in index_add2 (+) cbas (index_ctr self) bas)"

definition contract_v :: "AtomicOrbitals \<Rightarrow> nat \<Rightarrow> vec3 list list list \<Rightarrow> error + vec3 list list list" where
  \<comment> \<open>the branch \<^verbatim>\<open>if self.contract: ... index_add_(2, self.index_ctr, bas) else: ao = bas\<close>
      shared by the three per-dimension kernels\<close>
  "contract_v self nbatch bas =
     (if contract self then index_add2 vadd (zeros nbatch (nelec self) (norb self) vzero) (index_ctr self) bas
      else Inr bas)"

subsection \<open>Kernels\<close>

definition ao_kernel ::
  "AtomicOrbitals \<Rightarrow> real list list list \<Rightarrow> real list list list \<Rightarrow> error + real list list list" where
  "ao_kernel self R Y =
     (let ao = tmap2 (*) (bcast (*) (norm_cst self) R) Y in
      if contract self then contract' self ao else Inr ao)"

definition sum_gradient_kernel ::
  "AtomicOrbitals \<Rightarrow> real list list list \<Rightarrow> real list list list \<Rightarrow> real list list list
     \<Rightarrow> real list list list \<Rightarrow> error + real list list list" where
  "sum_gradient_kernel self R dR Y dY =
     (let dao = bcast (*) (norm_cst self) (tmap2 (+) (tmap2 (*) dR Y) (tmap2 (*) R dY)) in
      if contract self then contract' self dao else Inr dao)"

definition gradient_kernel ::
  "AtomicOrbitals \<Rightarrow> real list list list \<Rightarrow> vec3 list list list \<Rightarrow> real list list list
     \<Rightarrow> vec3 list list list \<Rightarrow> error + vec3 list list list" where
  "gradient_kernel self R dR Y dY =
     (let nbatch = length R;
          bas = tmap2 vadd (tmap2 (\<lambda>d y. smul y d) dR Y) (tmap2 smul R dY);
          bas = bcast smul (map2 (*) (norm_cst self) (bas_coeffs self)) bas
      in contract_v self nbatch bas)"

definition sum_diag_hessian_kernel ::
  "AtomicOrbitals \<Rightarrow> real list list list \<Rightarrow> vec3 list list list \<Rightarrow> real list list list
     \<Rightarrow> real list list list \<Rightarrow> vec3 list list list \<Rightarrow> real list list list
     \<Rightarrow> error + real list list list" where
  "sum_diag_hessian_kernel self R dR d2R Y dY d2Y =
     (let d2ao = bcast (*) (norm_cst self)
                   (tmap2 (+) (tmap2 (+) (tmap2 (*) d2R Y)
                                         (tmap (\<lambda>s. 2.0 * s) (tmap2 (\<lambda>a b. vsum (vmul a b)) dR dY)))
                              (tmap2 (*) R d2Y))
      in if contract self then contract' self d2ao else Inr d2ao)"

definition diag_hessian_kernel ::
  "AtomicOrbitals \<Rightarrow> real list list list \<Rightarrow> vec3 list list list \<Rightarrow> vec3 list list list
     \<Rightarrow> real list list list \<Rightarrow> vec3 list list list \<Rightarrow> vec3 list list list
     \<Rightarrow> error + vec3 list list list" where
  "diag_hessian_kernel self R dR d2R Y dY d2Y =
     (let nbatch = length R;
          bas = bcast smul (map2 (*) (norm_cst self) (bas_coeffs self))
                  (tmap2 vadd (tmap2 vadd (tmap2 (\<lambda>d y. smul y d) d2R Y)
                                          (tmap (smul 2.0) (tmap2 vmul dR dY)))
                              (tmap2 smul R d2Y))
      in contract_v self nbatch bas)"

definition cross_terms :: "vec3 \<Rightarrow> vec3 \<Rightarrow> vec3" where
  \<comment> \<open>\<^verbatim>\<open>(dR[..., [[0, 1], [0, 2], [1, 2]]] * dY[..., [[1, 0], [2, 0], [2, 1]]]).sum(-1)\<close>\<close>
  "cross_terms dR dY =
     (comp dR 0 * comp dY 1 + comp dR 1 * comp dY 0,
      comp dR 0 * comp dY 2 + comp dR 2 * comp dY 0,
      comp dR 1 * comp dY 2 + comp dR 2 * comp dY 1)"

definition off_diag_hessian_kernel ::
  "AtomicOrbitals \<Rightarrow> real list list list \<Rightarrow> vec3 list list list \<Rightarrow> vec3 list list list
     \<Rightarrow> real list list list \<Rightarrow> vec3 list list list \<Rightarrow> vec3 list list list
     \<Rightarrow> error + vec3 list list list" where
  "off_diag_hessian_kernel self R dR d2mR Y dY d2mY =
     (let nbatch = length R;
          bas = bcast smul (map2 (*) (norm_cst self) (bas_coeffs self))
                  (tmap2 vadd (tmap2 vadd (tmap2 (\<lambda>d y. smul y d) d2mR Y)
                                          (tmap2 cross_terms dR dY))
                              (tmap2 smul R d2mY))
      in contract_v self nbatch bas)"


subsection \<open>The evaluations behind \<^verbatim>\<open>forward\<close>\<close>

text \<open>
  Tuple unpacking of a radial or harmonics result (\<^verbatim>\<open>R, dR = ...\<close>): a result of another
  arity or rank is an error.
\<close>

definition unpackS :: "hresult \<Rightarrow> error + real list list list" where
  "unpackS h = (case h of Single (TS a) \<Rightarrow> Inr a | _ \<Rightarrow> Inl RuntimeError)"

definition unpackSS :: "hresult \<Rightarrow> error + (real list list list \<times> real list list list)" where
  "unpackSS h = (case h of Multi [TS a, TS b] \<Rightarrow> Inr (a, b) | _ \<Rightarrow> Inl RuntimeError)"

definition unpackSV :: "hresult \<Rightarrow> error + (real list list list \<times> vec3 list list list)" where
  "unpackSV h = (case h of Multi [TS a, TV b] \<Rightarrow> Inr (a, b) | _ \<Rightarrow> Inl RuntimeError)"

definition unpackSVS ::
  "hresult \<Rightarrow> error + (real list list list \<times> vec3 list list list \<times> real list list list)" where
  "unpackSVS h = (case h of Multi [TS a, TV b, TS c] \<Rightarrow> Inr (a, b, c) | _ \<Rightarrow> Inl RuntimeError)"

definition unpackSVV ::
  "hresult \<Rightarrow> error + (real list list list \<times> vec3 list list list \<times> vec3 list list list)" where
  "unpackSVV h = (case h of Multi [TS a, TV b, TV c] \<Rightarrow> Inr (a, b, c) | _ \<Rightarrow> Inl RuntimeError)"

definition unpackSVSV ::
  "hresult \<Rightarrow> error + (real list list list \<times> vec3 list list list \<times> real list list list \<times> vec3 list list list)" where
  "unpackSVSV h = (case h of Multi [TS a, TV b, TS c, TV d] \<Rightarrow> Inr (a, b, c, d) | _ \<Rightarrow> Inl RuntimeError)"

definition compute_ao_values :: "AtomicOrbitals \<Rightarrow> real list list \<Rightarrow> error + real list list list" where
  "compute_ao_values self pos =
     bindE (process_position self pos) (\<lambda>(xyz, r).
     bindE (bindE (radial_call (radial self) r (bas_n self) (bas_exp self) None [0] True True) unpackS) (\<lambda>R.
     bindE (bindE (Harmonics_call (harmonics self) xyz [0] True True) unpackS) (\<lambda>Y.
       ao_kernel self R Y)))"

definition compute_sum_gradient_ao_values ::
  "AtomicOrbitals \<Rightarrow> real list list \<Rightarrow> error + real list list list" where
  "compute_sum_gradient_ao_values self pos =
     bindE (process_position self pos) (\<lambda>(xyz, r).
     bindE (bindE (radial_call (radial self) r (bas_n self) (bas_exp self) (Some xyz) [0, 1] True True)
              unpackSS) (\<lambda>(R, dR).
     bindE (bindE (Harmonics_call (harmonics self) xyz [0, 1] True True) unpackSS) (\<lambda>(Y, dY).
       sum_gradient_kernel self R dR Y dY)))"

definition compute_gradient_ao_values ::
  "AtomicOrbitals \<Rightarrow> real list list \<Rightarrow> error + vec3 list list list" where
  "compute_gradient_ao_values self pos =
     bindE (process_position self pos) (\<lambda>(xyz, r).
     bindE (bindE (radial_call (radial self) r (bas_n self) (bas_exp self) (Some xyz) [0, 1] False True)
              unpackSV) (\<lambda>(R, dR).
     bindE (bindE (Harmonics_call (harmonics self) xyz [0, 1] False True) unpackSV) (\<lambda>(Y, dY).
       gradient_kernel self R dR Y dY)))"

datatype ao_result =
    AO "real list list list"
  | AOV "vec3 list list list"
  | AOAll "real list list list" "vec3 list list list" "real list list list"

definition compute_first_derivative_ao_values ::
  "AtomicOrbitals \<Rightarrow> real list list \<Rightarrow> bool \<Rightarrow> error + ao_result" where
  "compute_first_derivative_ao_values self pos sum_grad =
     (if sum_grad then bindE (compute_sum_gradient_ao_values self pos) (\<lambda>t. Inr (AO t))
      else bindE (compute_gradient_ao_values self pos) (\<lambda>t. Inr (AOV t)))"

definition compute_sum_diag_hessian_ao_values ::
  "AtomicOrbitals \<Rightarrow> real list list \<Rightarrow> error + real list list list" where
  "compute_sum_diag_hessian_ao_values self pos =
     bindE (process_position self pos) (\<lambda>(xyz, r).
     bindE (bindE (radial_call (radial self) r (bas_n self) (bas_exp self) (Some xyz) [0, 1, 2] False True)
              unpackSVS) (\<lambda>(R, dR, d2R).
     bindE (bindE (Harmonics_call (harmonics self) xyz [0, 1, 2] False True) unpackSVS) (\<lambda>(Y, dY, d2Y).
       sum_diag_hessian_kernel self R dR d2R Y dY d2Y)))"

definition compute_diag_hessian_ao_values ::
  "AtomicOrbitals \<Rightarrow> real list list \<Rightarrow> error + vec3 list list list" where
  "compute_diag_hessian_ao_values self pos =
     bindE (process_position self pos) (\<lambda>(xyz, r).
     bindE (bindE (radial_call (radial self) r (bas_n self) (bas_exp self) (Some xyz) [0, 1, 2] False False)
              unpackSVV) (\<lambda>(R, dR, d2R).
     bindE (bindE (Harmonics_call (harmonics self) xyz [0, 1, 2] False False) unpackSVV) (\<lambda>(Y, dY, d2Y).
       diag_hessian_kernel self R dR d2R Y dY d2Y)))"

definition compute_second_derivative_ao_values ::
  "AtomicOrbitals \<Rightarrow> real list list \<Rightarrow> bool \<Rightarrow> error + ao_result" where
  "compute_second_derivative_ao_values self pos sum_hess =
     (if sum_hess then bindE (compute_sum_diag_hessian_ao_values self pos) (\<lambda>t. Inr (AO t))
      else bindE (compute_diag_hessian_ao_values self pos) (\<lambda>t. Inr (AOV t)))"

definition compute_mixed_second_derivative_ao_values ::
  "AtomicOrbitals \<Rightarrow> real list list \<Rightarrow> error + vec3 list list list" where
  "compute_mixed_second_derivative_ao_values self pos =
     bindE (process_position self pos) (\<lambda>(xyz, r).
     bindE (bindE (radial_call (radial self) r (bas_n self) (bas_exp self) (Some xyz) [0, 1, 2, 3] False True)
              unpackSVSV) (\<lambda>(R, dR, d2R, d2mR).
     bindE (bindE (Harmonics_call (harmonics self) xyz [0, 1, 2, 3] False True) unpackSVSV)
       (\<lambda>(Y, dY, d2Y, d2mY).
       off_diag_hessian_kernel self R dR d2mR Y dY d2mY)))"

definition compute_all_ao_values :: "AtomicOrbitals \<Rightarrow> real list list \<Rightarrow> error + ao_result" where
  "compute_all_ao_values self pos =
     bindE (process_position self pos) (\<lambda>(xyz, r).
     bindE (bindE (radial_call (radial self) r (bas_n self) (bas_exp self) (Some xyz) [0, 1, 2] False True)
              unpackSVS) (\<lambda>(R, dR, d2R).
     bindE (bindE (Harmonics_call (harmonics self) xyz [0, 1, 2] False True) unpackSVS) (\<lambda>(Y, dY, d2Y).
     bindE (ao_kernel self R Y) (\<lambda>ao.
     bindE (gradient_kernel self R dR Y dY) (\<lambda>dao.
     bindE (sum_diag_hessian_kernel self R dR d2R Y dY d2Y) (\<lambda>d2ao.
       Inr (AOAll ao dao d2ao)))))))"

subsection \<open>\<^verbatim>\<open>forward\<close>\<close>

text \<open>
  The \<^verbatim>\<open>derivative\<close> argument is a Python value: an integer, a list of integers, or
  \<open>POther\<close>, any value that is neither and equals no integer.  After
  \<^verbatim>\<open>if not isinstance(derivative, list): derivative = [derivative]\<close> it is a list;
  \<open>None\<close> stands for the one-element list holding a \<open>POther\<close> value, which equals none
  of the lists the source compares with and contains neither 1 nor 2.

  An exception leaves \<^verbatim>\<open>forward\<close> at once: the object returned next to an \<open>Inl\<close> is the
  object as it is at the \<^verbatim>\<open>raise\<close>.
\<close>

datatype pyval = PInt int | PList "int list" | POther

definition as_list :: "pyval \<Rightarrow> int list option" where
  "as_list d = (case d of PInt n \<Rightarrow> Some [n] | PList ds \<Rightarrow> Some ds | POther \<Rightarrow> None)"

definition py_in :: "int \<Rightarrow> int list option \<Rightarrow> bool" where
  "py_in n d = (case d of None \<Rightarrow> False | Some ds \<Rightarrow> n \<in> set ds)"

definition forward ::
  "AtomicOrbitals \<Rightarrow> real list list \<Rightarrow> pyval \<Rightarrow> bool \<Rightarrow> bool \<Rightarrow> bool
     \<Rightarrow> (error + ao_result) \<times> AtomicOrbitals" where
  "forward self pos derivative sum_grad sum_hess one_elec =
     (let derivative = as_list derivative in
      if \<not> sum_grad \<and> \<not> py_in 1 derivative then (Inl AssertionError, self)
      else if \<not> sum_hess \<and> \<not> py_in 2 derivative then (Inl AssertionError, self)
      else
        (let nelec_save = nelec self;
             self = (if one_elec then self\<lparr>nelec := 1\<rparr> else self);
             ao = (if derivative = Some [0] then
                     bindE (compute_ao_values self pos) (\<lambda>t. Inr (AO t))
                   else if derivative = Some [1] then
                     compute_first_derivative_ao_values self pos sum_grad
                   else if derivative = Some [2] then
                     compute_second_derivative_ao_values self pos sum_hess
                   else if derivative = Some [3] then
                     bindE (compute_mixed_second_derivative_ao_values self pos) (\<lambda>t. Inr (AOV t))
                   else if derivative = Some [0, 1, 2] then
                     compute_all_ao_values self pos
                   else Inl ValueError)
         in case ao of
              Inl e \<Rightarrow> (Inl e, self)
            | Inr a \<Rightarrow> (Inr a, if one_elec then self\<lparr>nelec := nelec_save\<rparr> else self)))"

subsection \<open>\<^verbatim>\<open>update\<close>\<close>

text \<open>
  Tensors passed to and returned by \<^verbatim>\<open>update\<close> are objects: the store is the list of
  the tensors that exist, a reference is an index into it, and \<^verbatim>\<open>clone\<close> appends a
  copy and returns its index.
\<close>

type_synonym store = "real list list list list"

definition clone :: "store \<Rightarrow> nat \<Rightarrow> nat \<times> store" where
  "clone st a = (length st, st @ [st ! a])"

definition squeeze1 :: "real list list list \<Rightarrow> error + real list list" where
  \<comment> \<open>\<^verbatim>\<open>.squeeze(1)\<close> of a tensor whose axis 1 has size 1 (the electron axis of a
      one-electron evaluation); a tensor left with three axes cannot be assigned below\<close>
  "squeeze1 t = (if \<forall>b \<in> set t. length b = 1 then Inr (map hd t) else Inl RuntimeError)"

definition bc :: "nat \<Rightarrow> 'a list \<Rightarrow> error + 'a list" where
  \<comment> \<open>broadcasting one axis to size n: the sizes agree, or the source axis has size 1\<close>
  "bc n xs = (if length xs = n then Inr xs
              else if length xs = 1 then Inr (replicate n (hd xs))
              else Inl RuntimeError)"

definition assign_elec ::
  "real list list list \<Rightarrow> nat \<Rightarrow> real list list \<Rightarrow> error + real list list list" where
  \<comment> \<open>\<^verbatim>\<open>ao_new[:, idelec, :] = vals\<close>\<close>
  "assign_elec ao idelec vals =
     (if \<exists>b \<in> set ao. length b \<le> idelec then Inl IndexError
      else
        bindE (bc (length ao) vals) (\<lambda>vs.
        bindE (collect (map2 (\<lambda>b v. bc (length (b ! idelec)) v) ao vs)) (\<lambda>vs'.
          Inr (map2 (\<lambda>b v. b[idelec := v]) ao vs'))))"

definition update ::
  "AtomicOrbitals \<Rightarrow> store \<Rightarrow> nat \<Rightarrow> real list list \<Rightarrow> nat
     \<Rightarrow> (error + nat) \<times> store \<times> AtomicOrbitals" where
  "update self st ao pos idelec =
     (let (ao_new, st) = clone st ao;
          ids = idelec * 3;
          ide = (idelec + 1) * 3;
          (res, self) = forward self (map (\<lambda>row. take (ide - ids) (drop ids row)) pos) (PList [0]) True True True
      in case res of
           Inl e \<Rightarrow> (Inl e, st, self)
         | Inr (AO v) \<Rightarrow>
             (case bindE (squeeze1 v) (assign_elec (st ! ao_new) idelec) of
                Inl e \<Rightarrow> (Inl e, st, self)
              | Inr t \<Rightarrow> (Inr ao_new, st[ao_new := t], self))
         | Inr _ \<Rightarrow> (Inl RuntimeError, st, self))"


section \<open>Electron-electron Jastrow factor (jastrow\_factor\_electron\_electron.py)\<close>

text \<open>
  Modelled from the spec: the kernel class passed to the constructor (its base class
  \<^verbatim>\<open>JastrowKernelElectronElectronBase\<close> and the kernel variants are not part of the
  sources).  The spec says a kernel "maps a scalar pair distance to a scalar kernel value
  and supplies its own 1st/2nd derivative w.r.t. the distance", exposing
  \<open>value(r)\<close>, \<open>derivative(r, dr)\<close> and \<open>second-derivative(r, dr, d2r)\<close> on the
  unique-pair arrays.  The three are parameters acting on one pair (and one spatial
  component); the calls broadcast them.
\<close>

record JastrowKernel =
  kernel_value :: "real \<Rightarrow> real"
  kernel_derivative :: "real \<Rightarrow> real \<Rightarrow> real"
  kernel_second_derivative :: "real \<Rightarrow> real \<Rightarrow> real \<Rightarrow> real"

definition kernel_call :: "JastrowKernel \<Rightarrow> real list list \<Rightarrow> real list list" where
  \<comment> \<open>\<^verbatim>\<open>self.jastrow_kernel(r)\<close>, r of shape batch x pair\<close>
  "kernel_call k r = map (map (kernel_value k)) r"

definition compute_derivative ::
  "JastrowKernel \<Rightarrow> real list list \<Rightarrow> real list list list \<Rightarrow> real list list list" where
  \<comment> \<open>r of shape batch x pair, dr of shape batch x 3 x pair; the result has the shape of dr\<close>
  "compute_derivative k r dr =
     map2 (\<lambda>rb drb. map (\<lambda>drd. map2 (kernel_derivative k) rb drd) drb) r dr"

definition compute_second_derivative ::
  "JastrowKernel \<Rightarrow> real list list \<Rightarrow> real list list list \<Rightarrow> real list list list
     \<Rightarrow> real list list list" where
  "compute_second_derivative k r dr d2r =
     map2 (\<lambda>rb (drb, d2rb).
             map2 (\<lambda>drd d2rd. map2 (\<lambda>rr (a, b). kernel_second_derivative k rr a b) rb (zip drd d2rd))
               drb d2rb)
       r (zip dr d2r)"

text \<open>
  Modelled from the spec: \<^verbatim>\<open>ElectronElectronDistance\<close> (not part of the sources), which
  "computes the electron-electron distance matrix and its 1st/2nd derivatives w.r.t.
  electron coordinates, optionally under a smooth rescaling".  It is a parameter of the
  object: the matrix (batch x electron x electron) and its two derivative tensors
  (batch x 3 x electron x electron) as functions of the position batch.
\<close>

record edist_fn =
  edist0 :: "real list list \<Rightarrow> real list list list"
  edist1 :: "real list list \<Rightarrow> real list list list list"
  edist2 :: "real list list \<Rightarrow> real list list list list"

record JastrowFactorElectronElectron =
  nup :: nat
  ndown :: nat
  jnelec :: nat
  jastrow_kernel :: JastrowKernel
  mask_tri_up :: "bool list list"
  index_col :: "nat list"
  index_row :: "nat list"
  edist :: edist_fn

definition tri_up_pairs :: "nat \<Rightarrow> (nat \<times> nat) list" where
  \<comment> \<open>\<^verbatim>\<open>for i in range(self.nelec - 1): for j in range(i + 1, self.nelec):\<close>\<close>
  "tri_up_pairs n = concat (map (\<lambda>i. map (\<lambda>j. (i, j)) [i + 1 ..< n]) [0 ..< n - 1])"

definition get_mask_tri_up :: "nat \<Rightarrow> bool list list \<times> nat list \<times> nat list" where
  \<comment> \<open>returns \<^verbatim>\<open>mask, index_col, index_row\<close>\<close>
  "get_mask_tri_up n =
     (let msk = replicate n (replicate n False);
          (msk, index_col, index_row) =
            fold (\<lambda>(i, j) (msk, index_col, index_row).
                    (msk[i := (msk ! i)[j := True]], index_col @ [j], index_row @ [i]))
              (tri_up_pairs n) (msk, [], [])
      in (msk, index_col, index_row))"

definition JastrowFactorElectronElectron_init ::
  "nat \<Rightarrow> nat \<Rightarrow> JastrowKernel \<Rightarrow> edist_fn \<Rightarrow> JastrowFactorElectronElectron" where
  \<comment> \<open>the constructor; \<open>mol.nup\<close>, \<open>mol.ndown\<close>, the kernel and the distance engine are given\<close>
  "JastrowFactorElectronElectron_init n_up n_down k ed =
     (let (msk, icol, irow) = get_mask_tri_up (n_up + n_down) in
      \<lparr>nup = n_up, ndown = n_down, jnelec = n_up + n_down, jastrow_kernel = k,
       mask_tri_up = msk, index_col = icol, index_row = irow, edist = ed\<rparr>)"

definition masked_select :: "bool list list \<Rightarrow> real list list \<Rightarrow> real list" where
  \<comment> \<open>the entries of one matrix under the mask, in row-major order\<close>
  "masked_select msk m = concat (map2 (\<lambda>mrow row. map snd (filter fst (zip mrow row))) msk m)"

definition extract_tri_up :: "JastrowFactorElectronElectron \<Rightarrow> real list list list \<Rightarrow> real list list" where
  "extract_tri_up self inp = map (masked_select (mask_tri_up self)) inp"

definition extract_tri_up3 ::
  "JastrowFactorElectronElectron \<Rightarrow> real list list list list \<Rightarrow> real list list list" where
  \<comment> \<open>\<^verbatim>\<open>self.extract_tri_up(...).view(nbatch, 3, -1)\<close> on a batch x 3 x electron x electron
      tensor: the selected entries of one batch element, cut into three equal rows\<close>
  "extract_tri_up3 self inp =
     map (\<lambda>b. let flat = concat (map (masked_select (mask_tri_up self)) b);
                   p = length flat div 3
               in map (\<lambda>d. take p (drop (d * p) flat)) [0, 1, 2]) inp"

datatype jtensor = J2 "real list list" | J3 "real list list list"

definition get_edist_unique ::
  "JastrowFactorElectronElectron \<Rightarrow> real list list \<Rightarrow> int \<Rightarrow> jtensor option" where
  \<comment> \<open>\<open>None\<close> is Python's \<^verbatim>\<open>None\<close>: no branch of the function matches\<close>
  "get_edist_unique self pos derivative =
     (if derivative = 0 then Some (J2 (extract_tri_up self (edist0 (edist self) pos)))
      else if derivative = 1 then Some (J3 (extract_tri_up3 self (edist1 (edist self) pos)))
      else if derivative = 2 then Some (J3 (extract_tri_up3 self (edist2 (edist self) pos)))
      else None)"

definition sum_dim :: "real list list \<Rightarrow> real list" where
  \<comment> \<open>\<^verbatim>\<open>.sum(-2)\<close> of one batch element of a batch x 3 x n tensor: the sum over the axis of
      size 3, one entry per index of the last axis\<close>
  "sum_dim rows = (case rows of [] \<Rightarrow> [] | r # rs \<Rightarrow> fold (map2 (+)) rs r)"

definition bmul :: "real list \<Rightarrow> real list \<Rightarrow> real list" where
  \<comment> \<open>a row times a row of the same length, or times a row of length 1 (broadcast)\<close>
  "bmul xs js = (if length js = 1 then map (\<lambda>x. x * hd js) xs else map2 (*) xs js)"

definition scatter :: "nat \<Rightarrow> nat list \<Rightarrow> nat list \<Rightarrow> real \<Rightarrow> real list \<Rightarrow> error + real list" where
  \<comment> \<open>\<^verbatim>\<open>out = zeros(nelec); out.index_add_(-1, index_row, v); out.index_add_(-1, index_col, s * v)\<close>
      on one row\<close>
  "scatter n irow icol s v =
     bindE (index_add_row (+) (replicate n 0) irow v) (\<lambda>out.
       index_add_row (+) out icol (map (\<lambda>x. s * x) v))"

definition jastrow_factor_derivative ::
  "JastrowFactorElectronElectron \<Rightarrow> real list list \<Rightarrow> real list list list \<Rightarrow> real list list
     \<Rightarrow> bool \<Rightarrow> error + jtensor" where
  "jastrow_factor_derivative self r dr jast sum_grad =
     (if sum_grad then
        (let djast = map sum_dim (compute_derivative (jastrow_kernel self) r dr);
             djast = map2 bmul djast jast
         in bindE (collect (map (scatter (jnelec self) (index_row self) (index_col self) (- 1)) djast))
              (\<lambda>out. Inr (J2 out)))
      else
        (let djast = compute_derivative (jastrow_kernel self) r dr;
             djast = map2 (\<lambda>db jb. map (\<lambda>row. bmul row jb) db) djast jast
         in bindE (collect (map (\<lambda>db. collect (map (scatter (jnelec self) (index_row self)
                                                         (index_col self) (- 1)) db)) djast))
              (\<lambda>out. Inr (J3 out))))"

definition partial_derivative ::
  "JastrowFactorElectronElectron \<Rightarrow> real list list list \<Rightarrow> error + real list list" where
  "partial_derivative self djast =
     bindE (collect (map (\<lambda>db. collect (map (scatter (jnelec self) (index_row self)
                                                (index_col self) (- 1)) db)) djast))
       (\<lambda>out. Inr (map (\<lambda>ob. sum_dim (map (map (\<lambda>x. x\<^sup>2)) ob)) out))"

definition jastrow_factor_second_derivative ::
  "JastrowFactorElectronElectron \<Rightarrow> real list list \<Rightarrow> real list list list \<Rightarrow> real list list list
     \<Rightarrow> real list list \<Rightarrow> error + real list list" where
  "jastrow_factor_second_derivative self r dr d2r jast =
     (let d2jast = map sum_dim (compute_second_derivative (jastrow_kernel self) r dr d2r) in
      bindE (collect (map (scatter (jnelec self) (index_row self) (index_col self) 1) d2jast))
        (\<lambda>hess_jast.
           let djast = compute_derivative (jastrow_kernel self) r dr in
           bindE (partial_derivative self djast) (\<lambda>pd.
             let hess_jast = map2 (map2 (+)) hess_jast pd
             in Inr (map2 bmul hess_jast jast))))"

datatype jresult =
    JT jtensor
  | JTuple "real list list" jtensor "real list list"
  | JNone

definition as_J2 :: "jtensor option \<Rightarrow> error + real list list" where
  "as_J2 t = (case t of Some (J2 a) \<Rightarrow> Inr a | _ \<Rightarrow> Inl RuntimeError)"

definition as_J3 :: "jtensor option \<Rightarrow> error + real list list list" where
  "as_J3 t = (case t of Some (J3 a) \<Rightarrow> Inr a | _ \<Rightarrow> Inl RuntimeError)"

definition jforward ::
  "JastrowFactorElectronElectron \<Rightarrow> real list list \<Rightarrow> pyval \<Rightarrow> bool \<Rightarrow> error + jresult" where
  \<comment> \<open>\<^verbatim>\<open>JastrowFactorElectronElectron.forward\<close>; \<open>JNone\<close> is the \<^verbatim>\<open>None\<close> a Python function
      returns when it ends without a \<^verbatim>\<open>return\<close>\<close>
  "jforward self pos derivative sum_grad =
     (if \<exists>row \<in> set pos. length row \<noteq> jnelec self * 3 then Inl AssertionError
      else
        bindE (as_J2 (get_edist_unique self pos 0)) (\<lambda>r.
          let kern_vals = kernel_call (jastrow_kernel self) r;
              jast = map (\<lambda>row. [exp (sum_list row)]) kern_vals
          in if derivative = PInt 0 then Inr (JT (J2 jast))
             else if derivative = PInt 1 then
               bindE (as_J3 (get_edist_unique self pos 1)) (\<lambda>dr.
               bindE (jastrow_factor_derivative self r dr jast sum_grad) (\<lambda>t. Inr (JT t)))
             else if derivative = PInt 2 then
               bindE (as_J3 (get_edist_unique self pos 1)) (\<lambda>dr.
               bindE (as_J3 (get_edist_unique self pos 2)) (\<lambda>d2r.
               bindE (jastrow_factor_second_derivative self r dr d2r jast) (\<lambda>t. Inr (JT (J2 t)))))
             else if derivative = PList [0, 1, 2] then
               bindE (as_J3 (get_edist_unique self pos 1)) (\<lambda>dr.
               bindE (as_J3 (get_edist_unique self pos 2)) (\<lambda>d2r.
               bindE (jastrow_factor_derivative self r dr jast sum_grad) (\<lambda>dj.
               bindE (jastrow_factor_second_derivative self r dr d2r jast) (\<lambda>d2j.
                 Inr (JTuple jast dj d2j)))))
             else Inr JNone))"


subsection \<open>The cross term as a sum over the last axis\<close>

text \<open>
  The second-derivative assembly with the cross term read as "the signed scatter-add,
  squared, and summed over the axis the pairs were scattered along" (the last axis of the
  batch x 3 x electron tensor), instead of the \<^verbatim>\<open>.sum(-2)\<close> of the source.  It is
  defined only to be compared with \<open>jastrow_factor_second_derivative\<close>.
\<close>

definition partial_derivative_pair_axis ::
  "JastrowFactorElectronElectron \<Rightarrow> real list list list \<Rightarrow> error + real list list" where
  "partial_derivative_pair_axis self djast =
     bindE (collect (map (\<lambda>db. collect (map (scatter (jnelec self) (index_row self)
                                                (index_col self) (- 1)) db)) djast))
       (\<lambda>out. Inr (map (\<lambda>ob. map (\<lambda>row. sum_list (map (\<lambda>x. x\<^sup>2) row)) ob) out))"

definition jastrow_factor_second_derivative_pair_axis ::
  "JastrowFactorElectronElectron \<Rightarrow> real list list \<Rightarrow> real list list list \<Rightarrow> real list list list
     \<Rightarrow> real list list \<Rightarrow> error + real list list" where
  "jastrow_factor_second_derivative_pair_axis self r dr d2r jast =
     (let d2jast = map sum_dim (compute_second_derivative (jastrow_kernel self) r dr d2r) in
      bindE (collect (map (scatter (jnelec self) (index_row self) (index_col self) 1) d2jast))
        (\<lambda>hess_jast.
           let djast = compute_derivative (jastrow_kernel self) r dr in
           bindE (partial_derivative_pair_axis self djast) (\<lambda>pd.
             let hess_jast = map2 (map2 (+)) hess_jast pd
             in Inr (map2 bmul hess_jast jast))))"

section \<open>Auxiliary notions for the statements\<close>

definition gather :: "nat list \<Rightarrow> real list \<Rightarrow> nat \<Rightarrow> real" where
  \<comment> \<open>the sum of the entries \<open>src[p]\<close> whose index \<open>index[p]\<close> is \<open>i\<close>\<close>
  "gather index src i = sum_list (map snd (filter (\<lambda>p. fst p = i) (zip index src)))"

definition electrons :: "real list \<Rightarrow> vec3 list" where
  \<comment> \<open>the electrons of one row of a position batch\<close>
  "electrons row = map to_vec3 (chunks 3 row)"

text \<open>
  The invariant of an orbital object: what the constructor establishes from a basis
  specification whose arrays agree (the spec's data model: every primitive maps to one
  orbital, the shell counts sum to the primitive count), and what no evaluation changes.
  \<open>nbas\<close> is the number of primitives.
\<close>

definition nbas :: "AtomicOrbitals \<Rightarrow> nat" where
  "nbas self = sum_list (nshells self)"

definition harmonics_inv :: "Harmonics \<Rightarrow> nat \<Rightarrow> bool" where
  "harmonics_inv h n =
     (if htype h = ''cart'' then (case bas_k h of None \<Rightarrow> False | Some k \<Rightarrow> length k = n)
      else if htype h = ''sph'' then
        (case bas_l h of None \<Rightarrow> False
         | Some l \<Rightarrow> (case bas_m h of None \<Rightarrow> False | Some m \<Rightarrow> length l = n \<and> length m = n))
      else False)"

definition ao_inv :: "AtomicOrbitals \<Rightarrow> bool" where
  "ao_inv self =
     (0 < nelec self
      \<and> length (nshells self) = length (atom_coords self)
      \<and> length (index_ctr self) = nbas self
      \<and> list_all (\<lambda>i. i < norb self) (index_ctr self)
      \<and> contract self = contract_flag (index_ctr self)
      \<and> length (bas_coeffs self) = nbas self
      \<and> length (bas_exp self) = nbas self
      \<and> length (bas_n self) = nbas self
      \<and> length (norm_cst self) = nbas self
      \<and> harmonics_inv (harmonics self) (nbas self))"

text \<open>
  The orbital values of one electron at position \<open>e\<close>, as \<^verbatim>\<open>_compute_ao_values\<close>
  computes them for every electron of every batch element of a well-formed object.
\<close>

definition xyz_row :: "AtomicOrbitals \<Rightarrow> vec3 \<Rightarrow> vec3 list" where
  \<comment> \<open>the displacements of one electron from the centre of every primitive\<close>
  "xyz_row self e = concat (map2 replicate (nshells self) (map (\<lambda>a. vsub e a) (atom_coords self)))"

definition harm_row :: "Harmonics \<Rightarrow> vec3 list \<Rightarrow> real list" where
  "harm_row h xyz =
     (if htype h = ''cart'' then map2 (\<lambda>kk v. cart_kernel v kk) (the (bas_k h)) xyz
      else map2 (\<lambda>(l, mm) v. get_spherical_harmonics1 v l mm 0)
             (zip (the (bas_l h)) (the (bas_m h))) xyz)"

definition ao_row :: "AtomicOrbitals \<Rightarrow> vec3 \<Rightarrow> real list" where
  "ao_row self e =
     (let xyz = concat (map2 replicate (nshells self) (map (\<lambda>a. vsub e a) (atom_coords self)));
          r = map (\<lambda>v. sqrt (vsum (vmul v v))) xyz;
          R = map2 (\<lambda>(nn, z) rr. rad (radial self) rr nn z) (zip (bas_n self) (bas_exp self)) r;
          Y = harm_row (harmonics self) xyz;
          ao = map2 (*) (map2 (*) (norm_cst self) R) Y
      in if contract self
         then map (\<lambda>i. gather (index_ctr self) (map2 (*) (bas_coeffs self) ao) i) [0 ..< norb self]
         else ao)"

section \<open>Concrete objects\<close>

text \<open>
  Modelled from the spec: the Slater-pure radial profile, "Slater-pure (R = exp(-\<zeta>r), n
  folded into harmonics)", with derivatives "obtained by explicit chain rule through
  r = |x|".
\<close>

definition radial_slater_pure :: radial_fn where
  "radial_slater_pure =
     \<lparr>rad = (\<lambda>r n \<zeta>. exp (- \<zeta> * r)),
      rad_grad = (\<lambda>v r n \<zeta>. smul (- \<zeta> * exp (- \<zeta> * r) / r) v),
      rad_hess = (\<lambda>v r n \<zeta>.
         let h = (\<lambda>x. exp (- \<zeta> * r) * (\<zeta>\<^sup>2 * x\<^sup>2 / r\<^sup>2 - \<zeta> * (1 / r - x\<^sup>2 / r ^ 3)))
         in (h (comp v 0), h (comp v 1), h (comp v 2))),
      rad_mixed = (\<lambda>v r n \<zeta>.
         let m = (\<lambda>x y. exp (- \<zeta> * r) * x * y * (\<zeta>\<^sup>2 / r\<^sup>2 + \<zeta> / r ^ 3))
         in (m (comp v 0) (comp v 1), m (comp v 0) (comp v 2), m (comp v 1) (comp v 2)))\<rparr>"

definition harmonics_s :: Harmonics where
  \<comment> \<open>one s primitive: \<^verbatim>\<open>Harmonics("sph", bas_l=[0], bas_m=[0])\<close>\<close>
  "harmonics_s = \<lparr>htype = ''sph'', bas_l = Some [0], bas_m = Some [0], bas_k = None\<rparr>"

definition ao_h2 :: AtomicOrbitals where
  \<comment> \<open>two electrons, one centre at the origin carrying one s primitive with \<open>\<zeta> = 1\<close>\<close>
  "ao_h2 =
     \<lparr>nelec = 2, norb = 1, atom_coords = [(0, 0, 0)], nshells = [1], index_ctr = [0],
      contract = False, bas_coeffs = [1], bas_exp = [1], bas_n = [0],
      harmonics = harmonics_s, radial = radial_slater_pure, norm_cst = [1]\<rparr>"

definition ao_two_prim :: AtomicOrbitals where
  \<comment> \<open>two s primitives on one centre, each its own orbital (identity contraction map)\<close>
  "ao_two_prim =
     \<lparr>nelec = 1, norb = 2, atom_coords = [(0, 0, 0)], nshells = [2], index_ctr = [0, 1],
      contract = False, bas_coeffs = [2, 3], bas_exp = [1, 2], bas_n = [0, 0],
      harmonics = \<lparr>htype = ''sph'', bas_l = Some [0, 0], bas_m = Some [0, 0], bas_k = None\<rparr>,
      radial = radial_slater_pure, norm_cst = [2, 3]\<rparr>"

text \<open>
  A Pade-type kernel with unit weights, \<open>k(r) = r / (1 + r)\<close>, with its chain-rule
  derivatives \<open>k'(r) dr\<close> and \<open>k''(r) dr\<^sup>2 + k'(r) d2r\<close>.
\<close>

definition pade_kernel :: JastrowKernel where
  "pade_kernel =
     \<lparr>kernel_value = (\<lambda>r. r / (1 + r)),
      kernel_derivative = (\<lambda>r dr. dr / (1 + r)\<^sup>2),
      kernel_second_derivative = (\<lambda>r dr d2r. - 2 * dr\<^sup>2 / (1 + r) ^ 3 + d2r / (1 + r)\<^sup>2)\<rparr>"

text \<open>
  Modelled from the spec: the distance engine without rescaling, "the full
  electron-electron distance matrix (batch x electron x electron) and, on request, its
  first/second derivative w.r.t. each electron's coordinates".
\<close>

definition edist_plain :: edist_fn where
  "edist_plain =
     \<lparr>edist0 = (\<lambda>pos. map (\<lambda>row. map (\<lambda>a. map (\<lambda>b. sqrt (norm2 (vsub a b))) (electrons row))
                                     (electrons row)) pos),
      edist1 = (\<lambda>pos. map (\<lambda>row. map (\<lambda>d. map (\<lambda>a. map (\<lambda>b. comp (vsub a b) d / sqrt (norm2 (vsub a b)))
                                                     (electrons row)) (electrons row)) [0, 1, 2]) pos),
      edist2 = (\<lambda>pos. map (\<lambda>row. map (\<lambda>d. map (\<lambda>a. map (\<lambda>b.
                           (norm2 (vsub a b) - (comp (vsub a b) d)\<^sup>2) / sqrt (norm2 (vsub a b)) ^ 3)
                                                     (electrons row)) (electrons row)) [0, 1, 2]) pos)\<rparr>"

definition jastrow2 :: JastrowFactorElectronElectron where
  \<comment> \<open>one spin-up and one spin-down electron\<close>
  "jastrow2 = JastrowFactorElectronElectron_init 1 1 pade_kernel edist_plain"

definition jastrow3 :: JastrowFactorElectronElectron where
  \<comment> \<open>two spin-up electrons and one spin-down electron\<close>
  "jastrow3 = JastrowFactorElectronElectron_init 2 1 pade_kernel edist_plain"


section \<open>Properties of the harmonics engine\<close>

lemma grad_l0_zero: "get_grad_spherical_harmonics1 xyz 0 m = (0, 0, 0)"
  by (simp add: get_grad_spherical_harmonics1_def selv_def grad_spherical_harmonics_l0_def vzero_def)

lemma grad_l2_m_minus2_eval:
  "get_grad_spherical_harmonics [[[(1, 0, 0)]]] [2] [-2] = [[[(0, 0.31539156525252005, 0)]]]"
  by (simp add: get_grad_spherical_harmonics_def bcast_def get_grad_spherical_harmonics1_def
      selv_def grad_spherical_harmonics_l2_def grad_spherical_harmonics_l1_def
      grad_spherical_harmonics_l0_def smul_def vprod_def norm2_def vzero_def Let_def)

lemma value_l2_m_minus2_dy:
  "((\<lambda>y. projr (spherical_harmonics_l2 (1, y, 0) (-2))) has_real_derivative 1.0925484305920792) (at 0)"
  unfolding spherical_harmonics_l2_def index_l2_def comp_def norm2_def Let_def
  apply simp
  apply (rule derivative_eq_intros | simp)+
  done

text \<open>
  C2 (the unsummed gradient of an l = 2 primitive is the analytic gradient of the l = 2
  value formula, with the constant 1.092548... for m in {-2, -1, 1}; the gradient of an
  l = 0 primitive is zero).  The value formula for m = -2 is \<open>1.0925484305920792 x y / r\<^sup>2\<close>;
  at the displacement (1, 0, 0) its derivative along y is 1.0925484305920792, while the
  gradient returned by the engine has the y component 0.31539156525252005: the branches
  m = -2, -1, 1 of the gradient use the m = 0 constant.  The l = 0 part of the claim holds
  (\<open>grad_l0_zero\<close>).
\<close>

theorem grad_l2_wrong_constant:
  "get_grad_spherical_harmonics [[[(1, 0, 0)]]] [2] [-2] = [[[(0, 0.31539156525252005, 0)]]]
   \<and> ((\<lambda>y. projr (spherical_harmonics_l2 (1, y, 0) (-2))) has_real_derivative 1.0925484305920792) (at 0)
   \<and> get_grad_spherical_harmonics [[[(1, 0, 0)]]] [0] [0] = [[[(0, 0, 0)]]]"
  using grad_l2_m_minus2_eval value_l2_m_minus2_dy
  by (simp add: get_grad_spherical_harmonics_def bcast_def grad_l0_zero)

lemma harmonics_unknown_type_eval:
  "Harmonics_init ''spd'' \<lparr>kw_bas_l = None, kw_bas_m = None, kw_bas_kx = None, kw_bas_ky = None,
                           kw_bas_kz = None\<rparr>
     = Inr \<lparr>htype = ''spd'', bas_l = None, bas_m = None, bas_k = None\<rparr>
   \<and> Harmonics_call \<lparr>htype = ''spd'', bas_l = None, bas_m = None, bas_k = None\<rparr>
        [[[(1, 0, 0)]]] [0] True True = Inl ValueError"
  by (simp add: Harmonics_init_def Harmonics_call_def)

text \<open>
  C9, as stated (an unrecognized harmonics type fails at construction and never at
  evaluation), is false: the constructor returns an object for the type \<open>''spd''\<close>, and
  the evaluation of that object raises.
\<close>

theorem harmonics_unknown_type_counterexample:
  "Harmonics_init ''spd'' \<lparr>kw_bas_l = None, kw_bas_m = None, kw_bas_kx = None, kw_bas_ky = None,
                           kw_bas_kz = None\<rparr>
     = Inr \<lparr>htype = ''spd'', bas_l = None, bas_m = None, bas_k = None\<rparr>
   \<and> Harmonics_call \<lparr>htype = ''spd'', bas_l = None, bas_m = None, bas_k = None\<rparr>
        [[[(1, 0, 0)]]] [0] True True = Inl ValueError"
  by (rule harmonics_unknown_type_eval)

text \<open>
  C9, amended: constructing a harmonics engine with a type that is neither "cart" nor
  "sph" succeeds, whatever the keyword arguments, and sets no basis attribute; every
  later evaluation call of that engine raises ValueError.
\<close>

theorem harmonics_unknown_type_raises_at_call:
  assumes "type \<noteq> ''cart''" and "type \<noteq> ''sph''"
  shows "Harmonics_init type kw = Inr \<lparr>htype = type, bas_l = None, bas_m = None, bas_k = None\<rparr>
       \<and> Harmonics_call \<lparr>htype = type, bas_l = None, bas_m = None, bas_k = None\<rparr>
            xyz derivative sum_grad sum_hess = Inl ValueError"
  using assms by (simp add: Harmonics_init_def Harmonics_call_def)

theorem harmonics_unknown_type_raises_at_call_witness:
  "''spherical'' \<noteq> ''cart'' \<and> ''spherical'' \<noteq> ''sph''
   \<and> Harmonics_init ''spherical'' \<lparr>kw_bas_l = Some [0], kw_bas_m = Some [0], kw_bas_kx = None,
                                   kw_bas_ky = None, kw_bas_kz = None\<rparr>
       = Inr \<lparr>htype = ''spherical'', bas_l = None, bas_m = None, bas_k = None\<rparr>
   \<and> Harmonics_call \<lparr>htype = ''spherical'', bas_l = None, bas_m = None, bas_k = None\<rparr>
        [[[(0, 0, 1)]]] [0, 1] True True = Inl ValueError"
  using harmonics_unknown_type_raises_at_call[of "''spherical''"
      "\<lparr>kw_bas_l = Some [0], kw_bas_m = Some [0], kw_bas_kx = None, kw_bas_ky = None, kw_bas_kz = None\<rparr>"
      "[[[(0, 0, 1)]]]" "[0, 1]" True True]
  by simp


section \<open>Evaluation of the concrete orbital object\<close>

lemma chunks_aux_unfold: "0 < c \<Longrightarrow> chunks_aux c n xs = take n xs # chunks_aux (c - 1) n (drop n xs)"
  by (cases c) simp_all

lemma chunks3_3: "chunks 3 [a, b, c] = [[a, b, c]]"
  unfolding chunks_def by (simp add: chunks_aux_unfold)

lemma view_pos_one: "view_pos (Suc 0) [[a, b, c]] = Inr [[(a, b, c)]]"
  unfolding view_pos_def by (simp add: chunks3_3 to_vec3_def)

lemma process_position_h2_one:
  "process_position (ao_h2\<lparr>nelec := 1\<rparr>) [[a, b, c]]
     = Inr ([[[(a, b, c)]]], [[[sqrt (a * a + b * b + c * c)]]])"
  by (simp add: process_position_def elec_atom_dist_def view_pos_one bindE_def ao_h2_def
      repeat_interleave2_def repeat_interleave_def tmap_def vsub_def vmul_def vsum_def)

lemma sh1_l0: "get_spherical_harmonics1 v 0 m 0 = 0.2820948"
  by (simp add: get_spherical_harmonics1_def spherical_harmonics_l0_def sel_def)

lemma gsh_s: "get_spherical_harmonics [[[v]]] [0] [0] 0 = [[[0.2820948]]]"
  by (simp add: get_spherical_harmonics_def bcast_def sh1_l0)

lemma harmonics_s_value:
  "Harmonics_call harmonics_s [[[v]]] [0] True True = Inr (Single (TS [[[0.2820948]]]))"
  by (simp add: Harmonics_call_def harmonics_s_def SphericalHarmonics_def pack_def gsh_s)

lemma radial_h2_value:
  "radial_call radial_slater_pure [[[r]]] [0] [1] None [0] True True = Inr (Single (TS [[[exp (- r)]]]))"
  by (simp add: radial_call_def radial_fns_def radial_slater_pure_def bcast_def pack_def)

lemma ao_h2_fields:
  "radial (ao_h2\<lparr>nelec := 1\<rparr>) = radial_slater_pure" "bas_n (ao_h2\<lparr>nelec := 1\<rparr>) = [0]"
  "bas_exp (ao_h2\<lparr>nelec := 1\<rparr>) = [1]" "harmonics (ao_h2\<lparr>nelec := 1\<rparr>) = harmonics_s"
  "norm_cst (ao_h2\<lparr>nelec := 1\<rparr>) = [1]" "contract (ao_h2\<lparr>nelec := 1\<rparr>) = False"
  by (simp_all add: ao_h2_def)

lemma ao_h2_fields0:
  "radial ao_h2 = radial_slater_pure" "bas_n ao_h2 = [0]" "bas_exp ao_h2 = [1]"
  "harmonics ao_h2 = harmonics_s" "norm_cst ao_h2 = [1]" "contract ao_h2 = False" "nelec ao_h2 = 2"
  by (simp_all add: ao_h2_def)

lemma compute_ao_values_h2_one:
  "compute_ao_values (ao_h2\<lparr>nelec := 1\<rparr>) [[a, b, c]]
     = Inr [[[exp (- sqrt (a * a + b * b + c * c)) * 0.2820948]]]"
  unfolding compute_ao_values_def process_position_h2_one ao_h2_fields
  by (simp add: bindE_def radial_h2_value harmonics_s_value unpackS_def ao_kernel_def
      ao_h2_fields ao_h2_fields0 tmap2_def bcast_def Let_def)


lemma ao_h2_restore: "ao_h2\<lparr>nelec := 1\<rparr>\<lparr>nelec := 2\<rparr> = ao_h2"
  by (simp add: ao_h2_def)

lemma ao_h2_value_one:
  "forward ao_h2 [[1, 0, 0]] (PList [0]) True True True = (Inr (AO [[[exp (- 1) * 0.2820948]]]), ao_h2)"
proof -
  have "compute_ao_values (ao_h2\<lparr>nelec := 1\<rparr>) [[1, 0, 0]] = Inr [[[exp (- 1) * 0.2820948]]]"
    using compute_ao_values_h2_one[of 1 0 0] by simp
  then show ?thesis
    by (simp add: forward_def as_list_def py_in_def bindE_def Let_def ao_h2_fields0 ao_h2_restore)
qed

section \<open>Properties of \<^verbatim>\<open>AtomicOrbitals.forward\<close>\<close>

lemma forward_ok_same_object:
  "forward self pos derivative sum_grad sum_hess one_elec = (Inr a, self') \<Longrightarrow> self' = self"
  by (auto simp: forward_def Let_def split: if_splits sum.splits)

lemma forward_unsupported_raises:
  assumes "as_list derivative \<noteq> Some [0]" "as_list derivative \<noteq> Some [1]"
    "as_list derivative \<noteq> Some [2]" "as_list derivative \<noteq> Some [3]"
    "as_list derivative \<noteq> Some [0, 1, 2]"
  shows "fst (forward self pos derivative sum_grad sum_hess one_elec) = Inl AssertionError
       \<or> fst (forward self pos derivative sum_grad sum_hess one_elec) = Inl ValueError"
  using assms by (simp add: forward_def Let_def)

lemma harmonics_unsummed_hessian_only_cart:
  "Harmonics_call h xyz derivative sum_grad False = Inr y \<Longrightarrow> htype h = ''cart''"
  by (auto simp: Harmonics_call_def SphericalHarmonics_def split: if_splits option.splits)

text \<open>
  C10 (a call of \<^verbatim>\<open>forward\<close> that returns normally leaves \<open>nelec\<close> as it was; with
  \<^verbatim>\<open>one_elec=True\<close> the evaluation runs with \<open>nelec = 1\<close> and the saved value is
  restored before returning).  The object returned next to a result is the object passed
  in, and with \<open>one_elec\<close> the result is the one the object with \<open>nelec = 1\<close> computes.
\<close>

theorem forward_restores_nelec:
  assumes "forward self pos derivative sum_grad sum_hess one_elec = (Inr a, self')"
  shows "nelec self' = nelec self \<and> self' = self
       \<and> (one_elec \<longrightarrow>
            fst (forward (self\<lparr>nelec := 1\<rparr>) pos derivative sum_grad sum_hess False) = Inr a)"
  using assms by (auto simp: forward_def Let_def split: if_splits sum.splits)

theorem forward_restores_nelec_witness:
  "nelec (snd (forward ao_h2 [[1, 0, 0]] (PList [0]) True True True)) = 2
   \<and> fst (forward (ao_h2\<lparr>nelec := 1\<rparr>) [[1, 0, 0]] (PList [0]) True True False)
       = Inr (AO [[[exp (- 1) * 0.2820948]]])"
  using forward_restores_nelec[OF ao_h2_value_one]
  by (simp add: ao_h2_value_one ao_h2_fields0)


section \<open>Properties of the Jastrow factor\<close>

subsection \<open>Index arrays and scatter-add\<close>

lemma get_mask_tri_up_2: "get_mask_tri_up 2 = ([[False, True], [False, False]], [1], [0])"
  by (simp add: get_mask_tri_up_def tri_up_pairs_def numeral_2_eq_2)

lemma get_mask_tri_up_3:
  "get_mask_tri_up 3 = ([[False, True, True], [False, False, True], [False, False, False]],
                        [1, 2, 2], [0, 0, 1])"
  by (simp add: get_mask_tri_up_def tri_up_pairs_def numeral_3_eq_3 upt_rec)

lemma init_2:
  "n_up + n_down = 2 \<Longrightarrow> JastrowFactorElectronElectron_init n_up n_down k ed =
     \<lparr>nup = n_up, ndown = n_down, jnelec = 2, jastrow_kernel = k,
      mask_tri_up = [[False, True], [False, False]], index_col = [1], index_row = [0], edist = ed\<rparr>"
  by (simp add: JastrowFactorElectronElectron_init_def get_mask_tri_up_2)

lemma jastrow2_eq:
  "jastrow2 = \<lparr>nup = 1, ndown = 1, jnelec = 2, jastrow_kernel = pade_kernel,
      mask_tri_up = [[False, True], [False, False]], index_col = [1], index_row = [0],
      edist = edist_plain\<rparr>"
  by (simp add: jastrow2_def init_2)

lemma jastrow3_eq:
  "jastrow3 = \<lparr>nup = 2, ndown = 1, jnelec = 3, jastrow_kernel = pade_kernel,
      mask_tri_up = [[False, True, True], [False, False, True], [False, False, False]],
      index_col = [1, 2, 2], index_row = [0, 0, 1], edist = edist_plain\<rparr>"
  by (simp add: jastrow3_def JastrowFactorElectronElectron_init_def get_mask_tri_up_3)

lemma electrons3: "electrons [a, b, c, d, e, f, g, h, i] = [(a, b, c), (d, e, f), (g, h, i)]"
proof -
  have "chunks 3 [a, b, c, d, e, f, g, h, i] = [[a, b, c], [d, e, f], [g, h, i]]"
    unfolding chunks_def by (simp add: chunks_aux_unfold)
  then show ?thesis by (simp add: electrons_def to_vec3_def)
qed

lemma electrons2: "electrons [a, b, c, d, e, f] = [(a, b, c), (d, e, f)]"
proof -
  have "chunks 3 [a, b, c, d, e, f] = [[a, b, c], [d, e, f]]"
    unfolding chunks_def by (simp add: chunks_aux_unfold)
  then show ?thesis by (simp add: electrons_def to_vec3_def)
qed

lemma scatter_pair: "scatter 2 [0] [1] s [g] = Inr [g, s * g]"
  by (simp add: scatter_def index_add_row_def bindE_def numeral_2_eq_2)

lemma singleton_row: "length row = Suc 0 \<Longrightarrow> row = [row ! 0]"
  by (cases row) auto

lemma scatter_pair_row:
  "length row = Suc 0 \<Longrightarrow> scatter 2 [0] [Suc 0] s row = Inr [row ! 0, s * (row ! 0)]"
  using scatter_pair[of s "row ! 0"] singleton_row[of row] by simp

lemma collect_map_Inr:
  "(\<And>x. x \<in> set xs \<Longrightarrow> f x = Inr (g x)) \<Longrightarrow> collect (map f xs) = Inr (map g xs)"
  by (induction xs) auto

lemma masked_select_2:
  assumes "length m = 2" and "\<forall>row \<in> set m. length row = 2"
  shows "masked_select [[False, True], [False, False]] m = [m ! 0 ! 1]"
proof -
  obtain r0 r1 where m: "m = [r0, r1]"
    using assms(1) by (metis (no_types, opaque_lifting) One_nat_def Suc_1 length_0_conv length_Suc_conv)
  with assms(2) have "length r0 = 2" "length r1 = 2" by auto
  then obtain a0 a1 b0 b1 where "r0 = [a0, a1]" "r1 = [b0, b1]"
    by (metis (no_types, opaque_lifting) One_nat_def Suc_1 length_0_conv length_Suc_conv)
  with m show ?thesis by (simp add: masked_select_def)
qed

subsection \<open>Unsupported derivative requests\<close>

text \<open>
  C3 (an evaluation call of the orbital engine or of the Jastrow engine with a derivative
  request outside the supported set raises; it never silently returns a non-error
  result).  The orbital engine does raise (\<open>forward_unsupported_raises\<close>, and
  \<open>harmonics_unsummed_hessian_only_cart\<close> for the unsummed spherical Hessian).  The
  Jastrow engine does not: its \<^verbatim>\<open>if/elif\<close> chain has no \<^verbatim>\<open>else\<close>, and for every
  well-shaped position batch and every request other than 0, 1, 2 and [0, 1, 2] the call
  returns \<^verbatim>\<open>None\<close>.
\<close>

theorem jforward_unsupported_returns_none:
  assumes "\<forall>row \<in> set pos. length row = jnelec self * 3"
    and "derivative \<noteq> PInt 0" and "derivative \<noteq> PInt 1" and "derivative \<noteq> PInt 2"
    and "derivative \<noteq> PList [0, 1, 2]"
  shows "jforward self pos derivative sum_grad = Inr JNone"
  using assms by (simp add: jforward_def get_edist_unique_def as_J2_def bindE_def Let_def)

theorem jforward_unsupported_returns_none_witness:
  "jforward jastrow2 [[0, 0, 0, 1, 0, 0]] (PInt 3) True = Inr JNone"
  using jforward_unsupported_returns_none[of "[[0, 0, 0, 1, 0, 0]]" jastrow2 "PInt 3" True]
  by (simp add: jastrow2_eq)

subsection \<open>Two electrons\<close>

lemma cd_w: "compute_derivative pade_kernel [[1]] [[[- 1], [0], [0]]] = [[[- (1 / 4)], [0], [0]]]"
  by (simp add: compute_derivative_def pade_kernel_def power2_eq_square)

lemma djast_w:
  "map2 bmul (map sum_dim [[[- (1 / 4)], [0], [0]]]) [[exp (1 / 2)]] = [[- (exp (1 / 2) / 4)]]"
  by (simp add: sum_dim_def bmul_def)

lemma djast3_w:
  "map2 (\<lambda>db jb. map (\<lambda>row. bmul row jb) db) [[[- (1 / 4)], [0], [0]]] [[exp (1 / 2)]]
     = [[[- (exp (1 / 2) / 4)], [0], [0]]]"
  by (simp add: bmul_def)

text \<open>
  C5 (for two electrons, the signed scatter-add of the gradient assembly gives the row
  electron the kernel-derivative magnitude with sign +1 and the column electron the same
  magnitude with sign -1).  \<open>djast\<close> is the per-pair array the source scatters in the
  summed mode (the kernel derivative summed over the spatial axis, times J) and \<open>djast3\<close>
  the one of the unsummed mode; with one pair, each has one entry per row.
\<close>

theorem jastrow_gradient_antisymmetry:
  assumes "n_up + n_down = 2"
    and "self = JastrowFactorElectronElectron_init n_up n_down k ed"
    and "djast = map2 bmul (map sum_dim (compute_derivative k r dr)) jast"
    and "\<forall>row \<in> set djast. length row = 1"
    and "djast3 = map2 (\<lambda>db jb. map (\<lambda>row. bmul row jb) db) (compute_derivative k r dr) jast"
    and "\<forall>db \<in> set djast3. \<forall>row \<in> set db. length row = 1"
  shows "jastrow_factor_derivative self r dr jast True
           = Inr (J2 (map (\<lambda>row. [row ! 0, - (row ! 0)]) djast))
       \<and> jastrow_factor_derivative self r dr jast False
           = Inr (J3 (map (map (\<lambda>row. [row ! 0, - (row ! 0)])) djast3))"
proof -
  have s: "jnelec self = 2" "index_row self = [0]" "index_col self = [1]" "jastrow_kernel self = k"
    using assms(1,2) by (simp_all add: init_2)
  have a: "collect (map (scatter 2 [0] [1] (- 1)) djast)
             = Inr (map (\<lambda>row. [row ! 0, - (row ! 0)]) djast)"
    by (rule collect_map_Inr) (use assms(4) in \<open>simp add: scatter_pair_row\<close>)
  have b: "collect (map (\<lambda>db. collect (map (scatter 2 [0] [1] (- 1)) db)) djast3)
             = Inr (map (map (\<lambda>row. [row ! 0, - (row ! 0)])) djast3)"
    apply (rule collect_map_Inr)
    apply (rule collect_map_Inr)
    using assms(6) by (simp add: scatter_pair_row)
  show ?thesis
    using a b unfolding jastrow_factor_derivative_def s assms(3,5) Let_def bindE_def
    by simp
qed

theorem jastrow_gradient_antisymmetry_witness:
  "jastrow_factor_derivative jastrow2 [[1]] [[[- 1], [0], [0]]] [[exp (1 / 2)]] True
     = Inr (J2 [[- (exp (1 / 2) / 4), exp (1 / 2) / 4]])
   \<and> jastrow_factor_derivative jastrow2 [[1]] [[[- 1], [0], [0]]] [[exp (1 / 2)]] False
     = Inr (J3 [[[- (exp (1 / 2) / 4), exp (1 / 2) / 4], [0, 0], [0, 0]]])"
proof -
  have a: "(1::nat) + 1 = 2" by simp
  have b: "jastrow2 = JastrowFactorElectronElectron_init 1 1 pade_kernel edist_plain"
    by (simp add: jastrow2_def)
  have c: "[[- (exp (1 / 2) / 4)]] = map2 bmul (map sum_dim (compute_derivative pade_kernel [[1]] [[[- 1], [0], [0]]])) [[exp (1 / 2)]]"
    unfolding cd_w djast_w ..
  have d: "\<forall>row \<in> set [[- (exp (1 / 2) / 4)]]. length row = 1" by simp
  have e: "[[[- (exp (1 / 2) / 4)], [0], [0]]] = map2 (\<lambda>db jb. map (\<lambda>row. bmul row jb) db) (compute_derivative pade_kernel [[1]] [[[- 1], [0], [0]]]) [[exp (1 / 2)]]"
    unfolding cd_w djast3_w ..
  have f: "\<forall>db \<in> set [[[- (exp (1 / 2) / 4)], [0::real], [0]]]. \<forall>row \<in> set db. length row = 1" by simp
  show ?thesis
    using jastrow_gradient_antisymmetry[OF a b c d e f] by simp
qed

text \<open>
  C7 (for two electrons the value returned is \<open>exp(kernel(r12))\<close>, with \<open>r12\<close> the single
  unique pair distance, in a tensor of shape (batch, 1)).  \<open>r12\<close> is the entry (0, 1) of
  the distance matrix of the batch element.
\<close>

theorem jastrow_two_electron_value:
  assumes "n_up + n_down = 2"
    and "self = JastrowFactorElectronElectron_init n_up n_down k ed"
    and "\<forall>row \<in> set pos. length row = 6"
    and "\<forall>m \<in> set (edist0 ed pos). length m = 2 \<and> (\<forall>row \<in> set m. length row = 2)"
  shows "jforward self pos (PInt 0) sum_grad
           = Inr (JT (J2 (map (\<lambda>m. [exp (kernel_value k (m ! 0 ! 1))]) (edist0 ed pos))))"
proof -
  have s: "jnelec self = 2" "mask_tri_up self = [[False, True], [False, False]]"
    "jastrow_kernel self = k" "edist self = ed"
    using assms(1,2) by (simp_all add: init_2)
  have e: "extract_tri_up self (edist0 ed pos) = map (\<lambda>m. [m ! 0 ! 1]) (edist0 ed pos)"
    unfolding extract_tri_up_def s using assms(4) by (simp add: masked_select_2)
  show ?thesis
    using assms(3) unfolding jforward_def get_edist_unique_def s e
    by (simp add: as_J2_def bindE_def kernel_call_def Let_def comp_def)
qed

theorem jastrow_two_electron_value_witness:
  "jforward jastrow2 [[0, 0, 0, 1, 0, 0]] (PInt 0) True = Inr (JT (J2 [[exp (1 / 2)]]))"
  using jastrow_two_electron_value[of 1 1 jastrow2 pade_kernel edist_plain "[[0, 0, 0, 1, 0, 0]]" True]
  by (simp add: jastrow2_def edist_plain_def electrons2 norm2_def vsub_def pade_kernel_def)


section \<open>Scatter-add\<close>

lemma fold_index_add:
  "\<forall>p \<in> set ps. fst p < length (out :: real list) \<Longrightarrow>
   fold (\<lambda>(i, v) acc. acc[i := acc ! i + v]) ps out
     = map (\<lambda>i. out ! i + sum_list (map snd (filter (\<lambda>p. fst p = i) ps))) [0 ..< length out]"
proof (induction ps arbitrary: out)
  case Nil
  then show ?case by (simp add: map_nth)
next
  case (Cons p ps)
  obtain j v where p: "p = (j, v)" by (cases p)
  have j: "j < length out" using Cons.prems p by simp
  have "fold (\<lambda>(i, v) acc. acc[i := acc ! i + v]) (p # ps) out
          = fold (\<lambda>(i, v) acc. acc[i := acc ! i + v]) ps (out[j := out ! j + v])"
    by (simp add: p)
  also have "\<dots> = map (\<lambda>i. (out[j := out ! j + v]) ! i + sum_list (map snd (filter (\<lambda>p. fst p = i) ps)))
                      [0 ..< length out]"
    using Cons.IH[of "out[j := out ! j + v]"] Cons.prems by simp
  also have "\<dots> = map (\<lambda>i. out ! i + sum_list (map snd (filter (\<lambda>p. fst p = i) (p # ps)))) [0 ..< length out]"
    using j by (auto simp: p nth_list_update)
  finally show ?case .
qed

lemma index_add_row_gather:
  assumes "index_add_row (+) out index src = Inr res"
  shows "res = map (\<lambda>i. out ! i + gather index src i) [0 ..< length out]"
proof -
  have l: "length index = length src" and r: "\<forall>i \<in> set index. i < length out"
    and f: "res = fold (\<lambda>(i, v) acc. acc[i := acc ! i + v]) (zip index src) out"
    using assms by (auto simp: index_add_row_def not_le split: if_splits)
  have "\<forall>p \<in> set (zip index src). fst p < length out"
    using r by (auto dest: set_zip_leftD)
  from fold_index_add[OF this] f show ?thesis by (simp add: gather_def)
qed

lemma index_add_row_ok:
  "length index = length src \<Longrightarrow> \<forall>i \<in> set index. i < length out \<Longrightarrow>
   index_add_row (+) out index src = Inr (map (\<lambda>i. out ! i + gather index src i) [0 ..< length out])"
proof -
  assume a: "length index = length src" "\<forall>i \<in> set index. i < length out"
  then obtain res where "index_add_row (+) out index src = Inr res"
    by (auto simp: index_add_row_def not_le)
  with index_add_row_gather[OF this] show ?thesis by simp
qed

lemma gather_upt: "i < length (xs :: real list) \<Longrightarrow> gather [0 ..< length xs] xs i = xs ! i"
proof (induction xs rule: rev_induct)
  case Nil
  then show ?case by simp
next
  case (snoc x xs)
  have z: "zip [0 ..< length (xs @ [x])] (xs @ [x]) = zip [0 ..< length xs] xs @ [(length xs, x :: real)]"
    by simp
  show ?case
  proof (cases "i < length xs")
    case True
    with snoc.IH show ?thesis unfolding gather_def z by (simp add: nth_append)
  next
    case False
    with snoc.prems have i: "i = length xs" by simp
    have "filter (\<lambda>p. fst p = length xs) (zip [0 ..< length xs] xs) = []"
      by (auto simp: filter_empty_conv dest!: set_zip_leftD)
    then show ?thesis unfolding gather_def z i by simp
  qed
qed

lemma index_add_row_identity:
  "index_add_row (+) (replicate (length xs) 0) [0 ..< length xs] xs = Inr (xs :: real list)"
proof -
  have "index_add_row (+) (replicate (length xs) 0) [0 ..< length xs] xs
          = Inr (map (\<lambda>i. replicate (length xs) 0 ! i + gather [0 ..< length xs] xs i) [0 ..< length xs])"
    using index_add_row_ok[of "[0 ..< length xs]" xs "replicate (length xs) 0"] by simp
  also have "map (\<lambda>i. replicate (length xs) 0 ! i + gather [0 ..< length xs] xs i) [0 ..< length xs] = xs"
    by (rule nth_equalityI) (simp_all add: gather_upt)
  finally show ?thesis .
qed

lemma collect_map2_Inr:
  "length xs = length ys \<Longrightarrow> (\<And>i. i < length xs \<Longrightarrow> f (xs ! i) (ys ! i) = Inr (g (xs ! i) (ys ! i))) \<Longrightarrow>
   collect (map2 f xs ys) = Inr (map2 g xs ys)"
proof (induction xs ys rule: list_induct2)
  case Nil
  then show ?case by simp
next
  case (Cons x xs y ys)
  have "f x y = Inr (g x y)" using Cons.prems[of 0] by simp
  moreover have "collect (map2 f xs ys) = Inr (map2 g xs ys)"
    using Cons.IH Cons.prems[of "Suc _"] by simp
  ultimately show ?case by simp
qed

lemma index_add2_identity:
  assumes "\<forall>b \<in> set bas. length b = ne \<and> (\<forall>row \<in> set b. length row = n)"
  shows "index_add2 (+) (zeros (length bas) ne n 0) [0 ..< n] bas = Inr (bas :: real list list list)"
proof -
  have sh: "map length (zeros (length bas) ne n (0::real)) = map length bas"
    using assms by (auto simp: zeros_def intro!: nth_equalityI)
  have rows: "collect (map2 (\<lambda>orow srow. index_add_row (+) orow [0 ..< n] srow) (replicate ne (replicate n (0::real))) b)
                = Inr b" if "b \<in> set bas" for b
  proof -
    have lb: "length b = ne" and lr: "\<forall>row \<in> set b. length row = n" using assms that by auto
    have "collect (map2 (\<lambda>orow srow. index_add_row (+) orow [0 ..< n] srow) (replicate ne (replicate n (0::real))) b)
            = Inr (map2 (\<lambda>orow srow. srow) (replicate ne (replicate n (0::real))) b)"
    proof (rule collect_map2_Inr)
      show "length (replicate ne (replicate n (0::real))) = length b" using lb by simp
    next
      fix i assume "i < length (replicate ne (replicate n (0::real)))"
      then have i: "i < ne" by simp
      then have "length (b ! i) = n" using lb lr by auto
      then show "index_add_row (+) (replicate ne (replicate n (0::real)) ! i) [0 ..< n] (b ! i) = Inr (b ! i)"
        using i index_add_row_identity[of "b ! i"] by simp
    qed
    also have "map2 (\<lambda>orow srow. srow) (replicate ne (replicate n (0::real))) b = b"
      using lb by (auto intro!: nth_equalityI)
    finally show ?thesis .
  qed
  have "collect (map2 (\<lambda>ob sb. collect (map2 (\<lambda>orow srow. index_add_row (+) orow [0 ..< n] srow) ob sb))
                  (zeros (length bas) ne n (0::real)) bas)
          = Inr (map2 (\<lambda>ob sb. sb) (zeros (length bas) ne n (0::real)) bas)"
  proof (rule collect_map2_Inr)
    show "length (zeros (length bas) ne n (0::real)) = length bas" by (simp add: zeros_def)
  next
    fix i assume "i < length (zeros (length bas) ne n (0::real))"
    then have i: "i < length bas" by (simp add: zeros_def)
    then show "collect (map2 (\<lambda>orow srow. index_add_row (+) orow [0 ..< n] srow)
                 (zeros (length bas) ne n (0::real) ! i) (bas ! i)) = Inr (bas ! i)"
      using rows[of "bas ! i"] by (simp add: zeros_def)
  qed
  also have "map2 (\<lambda>ob sb. sb) (zeros (length bas) ne n (0::real)) bas = bas"
    by (auto intro!: nth_equalityI simp: zeros_def)
  finally show ?thesis using sh by (simp add: index_add2_def)
qed

lemma collect_map_char:
  "(\<And>x y. x \<in> set xs \<Longrightarrow> f x = Inr y \<Longrightarrow> y = g x) \<Longrightarrow> collect (map f xs) = Inr ys \<Longrightarrow> ys = map g xs"
proof (induction xs arbitrary: ys)
  case Nil
  then show ?case by simp
next
  case (Cons x xs)
  from Cons.prems(2) obtain y ys' where y: "f x = Inr y" and ys': "collect (map f xs) = Inr ys'"
    and e: "ys = y # ys'"
    by (auto split: sum.splits)
  have "y = g x" using Cons.prems(1)[of x y] y by simp
  moreover have "ys' = map g xs" using Cons.IH[OF _ ys'] Cons.prems(1) by simp
  ultimately show ?case using e by simp
qed

lemma gather_scale: "gather index (map (\<lambda>x. s * x) v) i = s * gather index v i"
proof -
  have "zip index (map (\<lambda>x. s * x) v) = map (\<lambda>p. (fst p, s * snd p)) (zip index v)"
    by (simp add: zip_map2 case_prod_beta)
  then show ?thesis
    unfolding gather_def
    by (simp add: filter_map o_def sum_list_const_mult)
qed

lemma scatter_char:
  assumes "scatter n irow icol s v = Inr res"
  shows "res = map (\<lambda>i. gather irow v i + s * gather icol v i) [0 ..< n]"
proof -
  from assms obtain out where o: "index_add_row (+) (replicate n 0) irow v = Inr out"
    and r: "index_add_row (+) out icol (map (\<lambda>x. s * x) v) = Inr res"
    by (auto simp: scatter_def bindE_def split: sum.splits)
  have o': "out = map (\<lambda>i. gather irow v i) [0 ..< n]"
    using index_add_row_gather[OF o] by simp
  have "res = map (\<lambda>i. out ! i + gather icol (map (\<lambda>x. s * x) v) i) [0 ..< length out]"
    using index_add_row_gather[OF r] .
  then show ?thesis by (simp add: o' gather_scale)
qed

lemma fold_map2_nth:
  "\<forall>row \<in> set rows. length row = length r \<Longrightarrow> i < length r \<Longrightarrow>
   fold (map2 (+)) rows r ! i = (r ! i :: real) + (\<Sum>row \<leftarrow> rows. row ! i)
   \<and> length (fold (map2 (+)) rows r) = length r"
proof (induction rows arbitrary: r)
  case Nil
  then show ?case by simp
next
  case (Cons a rows)
  have la: "length a = length r" using Cons.prems by simp
  have "\<forall>row \<in> set rows. length row = length (map2 (+) a r)" using Cons.prems la by simp
  moreover have "i < length (map2 (+) a r)" using Cons.prems la by simp
  ultimately have "fold (map2 (+)) rows (map2 (+) a r) ! i = map2 (+) a r ! i + (\<Sum>row \<leftarrow> rows. row ! i)
      \<and> length (fold (map2 (+)) rows (map2 (+) a r)) = length (map2 (+) a r)"
    by (rule Cons.IH)
  then show ?case using la Cons.prems by simp
qed

lemma sum_dim_nth:
  assumes "rows \<noteq> []" and "\<forall>row \<in> set rows. length row = n" and "i < n"
  shows "sum_dim rows ! i = (\<Sum>row \<leftarrow> rows. row ! i)"
proof -
  obtain r rs where rows: "rows = r # rs" using assms(1) by (cases rows) auto
  have "fold (map2 (+)) rs r ! i = r ! i + (\<Sum>row \<leftarrow> rs. row ! i)"
    using fold_map2_nth[of rs r i] assms(2,3) rows by simp
  then show ?thesis by (simp add: sum_dim_def rows)
qed

lemma sum_dim_empty: "sum_dim [] = []"
  by (simp add: sum_dim_def)

section \<open>Contraction over an identity map\<close>

lemma contract_flag_upt: "\<not> contract_flag [0 ..< n]"
  by (simp add: contract_flag_def)

lemma contract_identity:
  fixes bas :: "real list list list"
  assumes "\<forall>b \<in> set bas. length b = nelec self \<and> (\<forall>row \<in> set b. length row = n)"
    and "norb self = n" and "length (bas_coeffs self) = n" and "index_ctr self = [0 ..< n]"
  shows "contract' self bas = Inr (bcast (*) (bas_coeffs self) bas)"
proof -
  have sh: "\<forall>b \<in> set (bcast (*) (bas_coeffs self) bas).
              length b = nelec self \<and> (\<forall>row \<in> set b. length row = n)"
    using assms(1,3) by (auto simp: bcast_def)
  have "length (bcast (*) (bas_coeffs self) bas) = length bas" by (simp add: bcast_def)
  with index_add2_identity[OF sh] show ?thesis
    by (simp add: contract'_def assms(2,4) Let_def)
qed

lemma prim_shape:
  assumes "length R = length Y"
    and "\<forall>b \<in> set R. length b = ne \<and> (\<forall>row \<in> set b. length row = n)"
    and "\<forall>b \<in> set Y. length b = ne \<and> (\<forall>row \<in> set b. length row = n)"
    and "length nc = n"
  shows "\<forall>b \<in> set (tmap2 (*) (bcast (*) nc R) (Y :: real list list list)).
           length b = ne \<and> (\<forall>row \<in> set b. length row = n)"
proof
  fix b assume "b \<in> set (tmap2 (*) (bcast (*) nc R) Y)"
  then obtain k where k: "k < length R" and b: "b = map2 (map2 (*)) (map (map2 (*) nc) (R ! k)) (Y ! k)"
    using assms(1) by (auto simp: tmap2_def bcast_def in_set_conv_nth)
  have rk: "length (R ! k) = ne" "\<forall>row \<in> set (R ! k). length row = n"
    and yk: "length (Y ! k) = ne" "\<forall>row \<in> set (Y ! k). length row = n"
    using assms k by auto
  have "length row = n" if "row \<in> set b" for row
  proof -
    from that obtain e where e: "e < ne" and row: "row = map2 (*) (map2 (*) nc (R ! k ! e)) (Y ! k ! e)"
      unfolding b using rk(1) yk(1) by (auto simp: in_set_conv_nth)
    have "length (R ! k ! e) = n" "length (Y ! k ! e) = n" using rk yk e by auto
    then show ?thesis using assms(4) by (simp add: row)
  qed
  moreover have "length b = ne" using rk(1) yk(1) by (simp add: b)
  ultimately show "length b = ne \<and> (\<forall>row \<in> set b. length row = n)" by blast
qed

lemma ao_two_prim_fields:
  "index_ctr ao_two_prim = [0 ..< 2]" "contract ao_two_prim = contract_flag (index_ctr ao_two_prim)"
  "norb ao_two_prim = 2" "length (norm_cst ao_two_prim) = 2" "length (bas_coeffs ao_two_prim) = 2"
  "norm_cst ao_two_prim = [2, 3]" "bas_coeffs ao_two_prim = [2, 3]" "nelec ao_two_prim = 1"
  "contract ao_two_prim = False"
  by (simp_all add: ao_two_prim_def contract_flag_def upt_rec)

lemma ao_two_prim_gradient:
  "gradient_kernel ao_two_prim [[[5, 7]]] [[[(1, 0, 0), (1, 0, 0)]]] [[[11, 13]]] [[[(0, 0, 0), (0, 0, 0)]]]
     = Inr [[[(44, 0, 0), (117, 0, 0)]]]"
  by (simp add: gradient_kernel_def contract_v_def ao_two_prim_fields contract_flag_upt tmap2_def
      bcast_def vadd_def smul_def Let_def)

text \<open>
  C1 (for a basis whose contraction map is the identity, the value output of the kernel,
  which applies normalization and contraction coefficient and then a scatter-add that is
  a no-op for a one-to-one map, equals the un-contracted per-primitive output).  The
  scatter-add is indeed a no-op on the map \<open>[0, ..., n-1]\<close>, but the value kernel does not
  reach it: the constructor's flag \<open>contract\<close> is false for such a map, and the
  coefficients are applied inside \<^verbatim>\<open>_contract\<close> only.  So \<^verbatim>\<open>_ao_kernel\<close> returns
  \<^verbatim>\<open>norm_cst * R * Y\<close> without the contraction coefficient, while normalization,
  coefficient and scatter-add give \<^verbatim>\<open>bas_coeffs * norm_cst * R * Y\<close>.  The kernels
  \<^verbatim>\<open>_gradient_kernel\<close>, \<^verbatim>\<open>_diag_hessian_kernel\<close> and
  \<^verbatim>\<open>_off_diag_hessian_kernel\<close> of the same class multiply by \<^verbatim>\<open>bas_coeffs\<close> whatever the
  flag is.
\<close>

theorem ao_kernel_identity_drops_coefficient:
  assumes "index_ctr self = [0 ..< n]"
    and "contract self = contract_flag (index_ctr self)"
    and "norb self = n" and "length (norm_cst self) = n" and "length (bas_coeffs self) = n"
    and "length R = length Y"
    and "\<forall>b \<in> set R. length b = nelec self \<and> (\<forall>row \<in> set b. length row = n)"
    and "\<forall>b \<in> set Y. length b = nelec self \<and> (\<forall>row \<in> set b. length row = n)"
  shows "ao_kernel self R Y = Inr (tmap2 (*) (bcast (*) (norm_cst self) R) Y)
       \<and> contract' self (tmap2 (*) (bcast (*) (norm_cst self) R) Y)
           = Inr (bcast (*) (bas_coeffs self) (tmap2 (*) (bcast (*) (norm_cst self) R) Y))"
proof -
  have 1: "ao_kernel self R Y = Inr (tmap2 (*) (bcast (*) (norm_cst self) R) Y)"
    using assms(1,2) by (simp add: ao_kernel_def contract_flag_upt Let_def)
  have 2: "contract' self (tmap2 (*) (bcast (*) (norm_cst self) R) Y)
           = Inr (bcast (*) (bas_coeffs self) (tmap2 (*) (bcast (*) (norm_cst self) R) Y))"
    by (rule contract_identity[OF prim_shape[OF assms(6,7,8,4)] assms(3,5,1)])
  show ?thesis using 1 2 by simp
qed

theorem ao_kernel_identity_drops_coefficient_witness:
  "ao_kernel ao_two_prim [[[5, 7]]] [[[11, 13]]] = Inr [[[110, 273]]]
   \<and> contract' ao_two_prim [[[110, 273]]] = Inr [[[220, 819]]]
   \<and> gradient_kernel ao_two_prim [[[5, 7]]] [[[(1, 0, 0), (1, 0, 0)]]] [[[11, 13]]] [[[(0, 0, 0), (0, 0, 0)]]]
        = Inr [[[(44, 0, 0), (117, 0, 0)]]]"
  using ao_kernel_identity_drops_coefficient[of ao_two_prim 2 "[[[5, 7]]]" "[[[11, 13]]]"]
    ao_two_prim_gradient
  by (simp add: ao_two_prim_fields tmap2_def bcast_def)

section \<open>The second derivative of the Jastrow factor\<close>

lemma sc3: "scatter 3 [0, 0, Suc 0] [Suc 0, 2, 2] s [a, b, c] = Inr [a + b, c + s * a, s * b + s * c]"
  by (simp add: scatter_def index_add_row_def bindE_def numeral_3_eq_3)

lemma jastrow3_second_derivative_eval:
  "jastrow_factor_second_derivative jastrow3 [[1, 2, 1]]
      [[[- 1, - 1, - 1], [0, 0, 0], [0, 0, 0]]]
      [[[0, 0, 0], [1, 1 / 2, 1], [1, 1 / 2, 1]]] [[exp (5 / 3)]]
    = Inr [[541 / 1296 * exp (5 / 3), 1 / 2 * exp (5 / 3), 541 / 1296 * exp (5 / 3)]]"
  by (simp add: jastrow3_eq jastrow_factor_second_derivative_def partial_derivative_def
      compute_second_derivative_def compute_derivative_def pade_kernel_def sum_dim_def sc3
      bindE_def bmul_def Let_def power2_eq_square power3_eq_cube)

lemma jastrow3_second_derivative_pair_axis_eval:
  "jastrow_factor_second_derivative_pair_axis jastrow3 [[1, 2, 1]]
      [[[- 1, - 1, - 1], [0, 0, 0], [0, 0, 0]]]
      [[[0, 0, 0], [1, 1 / 2, 1], [1, 1 / 2, 1]]] [[exp (5 / 3)]]
    = Inr [[355 / 648 * exp (5 / 3), 1 / 2 * exp (5 / 3), 31 / 108 * exp (5 / 3)]]"
  by (simp add: jastrow3_eq jastrow_factor_second_derivative_pair_axis_def partial_derivative_pair_axis_def
      compute_second_derivative_def compute_derivative_def pade_kernel_def sum_dim_def sc3
      bindE_def bmul_def Let_def power2_eq_square power3_eq_cube)

lemma jastrow3_r: "extract_tri_up jastrow3 (edist0 edist_plain [[0, 0, 0, 1, 0, 0, 2, 0, 0]]) = [[1, 2, 1]]"
  by (simp add: jastrow3_eq extract_tri_up_def edist_plain_def electrons3 masked_select_def
       norm2_def vsub_def)

lemma jastrow3_dr: "extract_tri_up3 jastrow3 (edist1 edist_plain [[0, 0, 0, 1, 0, 0, 2, 0, 0]])
   = [[[- 1, - 1, - 1], [0, 0, 0], [0, 0, 0]]]"
  by (simp add: jastrow3_eq extract_tri_up3_def edist_plain_def electrons3 masked_select_def
       norm2_def vsub_def comp_def Let_def)

lemma jastrow3_d2r: "extract_tri_up3 jastrow3 (edist2 edist_plain [[0, 0, 0, 1, 0, 0, 2, 0, 0]])
   = [[[0, 0, 0], [1, 1 / 2, 1], [1, 1 / 2, 1]]]"
  by (simp add: jastrow3_eq extract_tri_up3_def edist_plain_def electrons3 masked_select_def
       norm2_def vsub_def comp_def Let_def power3_eq_cube)


lemma jastrow3_forward_second_eval: "jforward jastrow3 [[0, 0, 0, 1, 0, 0, 2, 0, 0]] (PInt 2) True
   = Inr (JT (J2 [[541 / 1296 * exp (5 / 3), 1 / 2 * exp (5 / 3), 541 / 1296 * exp (5 / 3)]]))"
proof -
  have j: "jnelec jastrow3 = 3" "jastrow_kernel jastrow3 = pade_kernel" "edist jastrow3 = edist_plain"
    by (simp_all add: jastrow3_eq)
  have k: "kernel_call pade_kernel [[1, 2, 1]] = [[1 / 2, 2 / 3, 1 / 2]]"
    by (simp add: kernel_call_def pade_kernel_def)
  show ?thesis
    unfolding jforward_def get_edist_unique_def j
    using jastrow3_r jastrow3_dr jastrow3_d2r jastrow3_second_derivative_eval
    by (simp add: as_J2_def as_J3_def bindE_def k)
qed

text \<open>
  C6, as stated (the cross term is the signed scatter-add of the kernel first
  derivatives, squared, and summed over the electron-pair axis), is false.  The scatter-add
  turns the pair axis into the electron axis, and \<^verbatim>\<open>(out**2).sum(-2)\<close> sums over the axis
  before it, the spatial one.  For three electrons on a line at x = 0, 1, 2 the source
  returns one number per electron from the sum over x, y, z; summing over the axis the
  pairs were scattered along gives another tensor.
\<close>

theorem jastrow_cross_term_axis_counterexample:
  "jforward jastrow3 [[0, 0, 0, 1, 0, 0, 2, 0, 0]] (PInt 2) True
     = Inr (JT (J2 [[541 / 1296 * exp (5 / 3), 1 / 2 * exp (5 / 3), 541 / 1296 * exp (5 / 3)]]))
   \<and> jastrow_factor_second_derivative jastrow3 [[1, 2, 1]]
        [[[- 1, - 1, - 1], [0, 0, 0], [0, 0, 0]]]
        [[[0, 0, 0], [1, 1 / 2, 1], [1, 1 / 2, 1]]] [[exp (5 / 3)]]
     = Inr [[541 / 1296 * exp (5 / 3), 1 / 2 * exp (5 / 3), 541 / 1296 * exp (5 / 3)]]
   \<and> jastrow_factor_second_derivative_pair_axis jastrow3 [[1, 2, 1]]
        [[[- 1, - 1, - 1], [0, 0, 0], [0, 0, 0]]]
        [[[0, 0, 0], [1, 1 / 2, 1], [1, 1 / 2, 1]]] [[exp (5 / 3)]]
     = Inr [[355 / 648 * exp (5 / 3), 1 / 2 * exp (5 / 3), 31 / 108 * exp (5 / 3)]]
   \<and> jastrow_factor_second_derivative jastrow3 [[1, 2, 1]]
        [[[- 1, - 1, - 1], [0, 0, 0], [0, 0, 0]]]
        [[[0, 0, 0], [1, 1 / 2, 1], [1, 1 / 2, 1]]] [[exp (5 / 3)]]
     \<noteq> jastrow_factor_second_derivative_pair_axis jastrow3 [[1, 2, 1]]
        [[[- 1, - 1, - 1], [0, 0, 0], [0, 0, 0]]]
        [[[0, 0, 0], [1, 1 / 2, 1], [1, 1 / 2, 1]]] [[exp (5 / 3)]]"
  unfolding jastrow3_forward_second_eval jastrow3_second_derivative_eval
    jastrow3_second_derivative_pair_axis_eval
  by simp

text \<open>
  C6, amended: the second-derivative output equals J times the sum of (a) the scatter-add
  of the kernel second derivatives over the row and the column index arrays, both with
  sign +1, and (b) the signed (+row, -column) scatter-add of the kernel first derivatives,
  squared, and summed over the spatial axis (axis -2 of the batch x 3 x electron tensor).
  \<open>d2\<close> is the array of per-pair second derivatives summed over the spatial axis and
  \<open>dj\<close> the three rows of per-pair first derivatives of a batch element.  First the
  entries of any result the call returns; the theorem follows below.
\<close>

lemma jastrow_second_derivative_entry:
  assumes ok: "jastrow_factor_second_derivative self r dr d2r jast = Inr out"
    and b: "b < length out" and i: "i < length (out ! b)" and j: "length (jast ! b) = 1"
    and d2: "d2 = sum_dim (compute_second_derivative (jastrow_kernel self) r dr d2r ! b)"
    and dj: "dj = compute_derivative (jastrow_kernel self) r dr ! b"
  shows "out ! b ! i =
           (gather (index_row self) d2 i + gather (index_col self) d2 i
            + (\<Sum>row \<leftarrow> dj. (gather (index_row self) row i - gather (index_col self) row i)\<^sup>2))
           * (jast ! b ! 0)"
proof -
  define n where "n = jnelec self"
  define irow where "irow = index_row self"
  define icol where "icol = index_col self"
  define c2 where "c2 = compute_second_derivative (jastrow_kernel self) r dr d2r"
  define c1 where "c1 = compute_derivative (jastrow_kernel self) r dr"
  define g1 where "g1 = (\<lambda>v. map (\<lambda>i. gather irow v i + 1 * gather icol v i) [0 ..< n])"
  define gm where "gm = (\<lambda>v. map (\<lambda>i. gather irow v i + (- 1) * gather icol v i) [0 ..< n])"
  from ok obtain hess pd where
    h: "collect (map (scatter n irow icol 1) (map sum_dim c2)) = Inr hess"
    and p: "partial_derivative self c1 = Inr pd"
    and o: "out = map2 bmul (map2 (map2 (+)) hess pd) jast"
    unfolding jastrow_factor_second_derivative_def Let_def bindE_def n_def irow_def icol_def c2_def c1_def
    by (auto split: sum.splits)
  from p obtain o3 where
    o3: "collect (map (\<lambda>db. collect (map (scatter n irow icol (- 1)) db)) c1) = Inr o3"
    and pd: "pd = map (\<lambda>ob. sum_dim (map (map (\<lambda>x. x\<^sup>2)) ob)) o3"
    unfolding partial_derivative_def bindE_def n_def irow_def icol_def
    by (auto split: sum.splits)
  have hess: "hess = map g1 (map sum_dim c2)"
    by (rule collect_map_char[OF _ h]) (auto simp: g1_def dest!: scatter_char)
  have o3': "o3 = map (map gm) c1"
  proof (rule collect_map_char[OF _ o3])
    fix db y assume "collect (map (scatter n irow icol (- 1)) db) = Inr y"
    then show "y = map gm db"
      by (rule collect_map_char[rotated]) (auto simp: gm_def dest!: scatter_char)
  qed
  have lb: "b < length c2" "b < length c1" "b < length jast"
    using b unfolding o hess pd o3' by simp_all
  have ob: "out ! b = bmul (map2 (+) (g1 (sum_dim (c2 ! b))) (sum_dim (map (map (\<lambda>x. x\<^sup>2)) (map gm (c1 ! b))))) (jast ! b)"
    using lb unfolding o hess pd o3' by simp
  have ne: "c1 ! b \<noteq> []"
  proof
    assume "c1 ! b = []"
    then have "out ! b = []" unfolding ob by (simp add: sum_dim_empty bmul_def)
    with i show False by simp
  qed
  have rows: "\<forall>row \<in> set (map (map (\<lambda>x. x\<^sup>2)) (map gm (c1 ! b))). length row = n"
    by (auto simp: gm_def)
  have li: "i < n"
  proof -
    have "length (out ! b) \<le> length (g1 (sum_dim (c2 ! b)))"
      unfolding ob using j by (simp add: bmul_def)
    then show ?thesis using i by (simp add: g1_def)
  qed
  have sd: "sum_dim (map (map (\<lambda>x. x\<^sup>2)) (map gm (c1 ! b))) ! i
              = (\<Sum>row \<leftarrow> map (map (\<lambda>x. x\<^sup>2)) (map gm (c1 ! b)). row ! i)"
    by (rule sum_dim_nth[OF _ rows li]) (use ne in simp)
  have lsd: "length (sum_dim (map (map (\<lambda>x. x\<^sup>2)) (map gm (c1 ! b)))) = n"
  proof -
    obtain a rs where ars: "c1 ! b = a # rs" using ne by (cases "c1 ! b") auto
    have "length (fold (map2 (+)) (map (map (\<lambda>x. x\<^sup>2)) (map gm rs)) (map (\<lambda>x. x\<^sup>2) (gm a)))
            = length (map (\<lambda>x. x\<^sup>2) (gm a))"
      using fold_map2_nth[of "map (map (\<lambda>x. x\<^sup>2)) (map gm rs)" "map (\<lambda>x. x\<^sup>2) (gm a)" i] li
      by (auto simp: gm_def)
    then show ?thesis by (simp add: sum_dim_def ars gm_def)
  qed
  have "out ! b ! i = (g1 (sum_dim (c2 ! b)) ! i + sum_dim (map (map (\<lambda>x. x\<^sup>2)) (map gm (c1 ! b))) ! i) * hd (jast ! b)"
    unfolding ob using j li lsd by (simp add: bmul_def g1_def)
  also have "hd (jast ! b) = jast ! b ! 0" using j by (cases "jast ! b") auto
  also have "g1 (sum_dim (c2 ! b)) ! i = gather irow d2 i + gather icol d2 i"
    using li by (simp add: g1_def d2 c2_def)
  also have "sum_dim (map (map (\<lambda>x. x\<^sup>2)) (map gm (c1 ! b))) ! i
               = (\<Sum>row \<leftarrow> dj. (gather irow row i - gather icol row i)\<^sup>2)"
    unfolding sd using li by (simp add: gm_def o_def dj c1_def)
  finally show ?thesis by (simp add: irow_def icol_def)
qed

lemma fold_tri_up:
  "fold (\<lambda>(i, j) (msk, index_col, index_row).
           (msk[i := (msk ! i)[j := True]], index_col @ [j], index_row @ [i])) ps (m, c, r)
     = (fst (fold (\<lambda>(i, j) (msk, index_col, index_row).
           (msk[i := (msk ! i)[j := True]], index_col @ [j], index_row @ [i])) ps (m, c, r)),
        c @ map snd ps, r @ map fst ps)"
proof (induction ps arbitrary: m c r)
  case Nil
  then show ?case by simp
next
  case (Cons p ps)
  obtain i j where p: "p = (i, j)" by (cases p)
  show ?case
    using Cons.IH[of "m[i := (m ! i)[j := True]]" "c @ [j]" "r @ [i]"]
    by (simp add: p)
qed

lemma init_indices:
  assumes "self = JastrowFactorElectronElectron_init n_up n_down k ed"
  shows "index_col self = map snd (tri_up_pairs (n_up + n_down))"
    and "index_row self = map fst (tri_up_pairs (n_up + n_down))"
    and "jnelec self = n_up + n_down" and "jastrow_kernel self = k"
proof -
  let ?f = "\<lambda>(i, j) (msk, index_col, index_row).
           (msk[i := (msk ! i)[j := True]], index_col @ [j :: nat], index_row @ [i :: nat])"
  let ?n = "n_up + n_down"
  obtain M where "fold ?f (tri_up_pairs ?n) (replicate ?n (replicate ?n False), [], [])
                    = (M, map snd (tri_up_pairs ?n), map fst (tri_up_pairs ?n))"
    using fold_tri_up[of "tri_up_pairs ?n" "replicate ?n (replicate ?n False)" "[]" "[]"] by simp
  then have g: "get_mask_tri_up ?n = (M, map snd (tri_up_pairs ?n), map fst (tri_up_pairs ?n))"
    by (simp add: get_mask_tri_up_def)
  show "index_col self = map snd (tri_up_pairs ?n)" "index_row self = map fst (tri_up_pairs ?n)"
    "jnelec self = ?n" "jastrow_kernel self = k"
    using assms g by (simp_all add: JastrowFactorElectronElectron_init_def)
qed

lemma tri_up_pairs_range: "(i, j) \<in> set (tri_up_pairs n) \<Longrightarrow> i < j \<and> j < n"
  by (auto simp: tri_up_pairs_def)

lemma init_indices_range:
  assumes "self = JastrowFactorElectronElectron_init n_up n_down k ed"
  shows "length (index_col self) = length (index_row self)"
    and "\<forall>i \<in> set (index_row self). i < n_up + n_down"
    and "\<forall>i \<in> set (index_col self). i < n_up + n_down"
  using init_indices(1,2)[OF assms] tri_up_pairs_range[of _ _ "n_up + n_down"]
  by (auto, fastforce+)

lemma scatter_ok:
  assumes "length irow = length v" and "length icol = length v"
    and "\<forall>i \<in> set irow. i < n" and "\<forall>i \<in> set icol. i < n"
  shows "scatter n irow icol s v = Inr (map (\<lambda>i. gather irow v i + s * gather icol v i) [0 ..< n])"
proof -
  have 1: "index_add_row (+) (replicate n 0) irow v
             = Inr (map (\<lambda>i. replicate n 0 ! i + gather irow v i) [0 ..< length (replicate n (0::real))])"
    by (rule index_add_row_ok) (use assms in simp_all)
  let ?o = "map (\<lambda>i. replicate n 0 ! i + gather irow v i) [0 ..< length (replicate n (0::real))]"
  have "index_add_row (+) ?o icol (map (\<lambda>x. s * x) v)
          = Inr (map (\<lambda>i. ?o ! i + gather icol (map (\<lambda>x. s * x) v) i) [0 ..< length ?o])"
    by (rule index_add_row_ok) (use assms in simp_all)
  then obtain res where r: "scatter n irow icol s v = Inr res"
    by (simp add: scatter_def bindE_def 1)
  from scatter_char[OF r] r show ?thesis by simp
qed

lemma length_sum_dim:
  assumes "rows \<noteq> []" and "\<forall>row \<in> set rows. length row = n"
  shows "length (sum_dim rows) = n"
proof -
  obtain a rs where rows: "rows = a # rs" using assms(1) by (cases rows) auto
  show ?thesis
  proof (cases "n = 0")
    case True
    then have "\<forall>row \<in> set rs. length row = length a" using assms(2) rows by simp
    then have "length (fold (map2 (+)) rs a) = length a"
      by (induction rs arbitrary: a) auto
    then show ?thesis using assms(2) rows by (simp add: sum_dim_def)
  next
    case False
    then have "0 < length a" "\<forall>row \<in> set rs. length row = length a" using assms(2) rows by auto
    then have "length (fold (map2 (+)) rs a) = length a"
      using fold_map2_nth[of rs a 0] by simp
    then show ?thesis using assms(2) rows by (simp add: sum_dim_def)
  qed
qed

lemma compute_derivative_shape:
  assumes "length r = nb" "length dr = nb"
    and "\<forall>b < nb. length (r ! b) = np \<and> length (dr ! b) = 3 \<and> (\<forall>d < 3. length (dr ! b ! d) = np)"
  shows "length (compute_derivative k r dr) = nb"
    and "\<forall>b < nb. length (compute_derivative k r dr ! b) = 3
           \<and> (\<forall>row \<in> set (compute_derivative k r dr ! b). length row = np)"
  using assms by (auto simp: compute_derivative_def in_set_conv_nth)

lemma compute_second_derivative_shape:
  assumes "length r = nb" "length dr = nb" "length d2r = nb"
    and "\<forall>b < nb. length (r ! b) = np \<and> length (dr ! b) = 3 \<and> length (d2r ! b) = 3
           \<and> (\<forall>d < 3. length (dr ! b ! d) = np \<and> length (d2r ! b ! d) = np)"
  shows "length (compute_second_derivative k r dr d2r) = nb"
    and "\<forall>b < nb. length (compute_second_derivative k r dr d2r ! b) = 3
           \<and> (\<forall>row \<in> set (compute_second_derivative k r dr d2r ! b). length row = np)"
  using assms by (auto simp: compute_second_derivative_def in_set_conv_nth)

lemma upt3: "[0 ..< 3] = [0, 1, 2]"
  by (simp add: upt_rec)

text \<open>
  C6, amended, as an equation for the whole output.  For a factor built by the
  constructor and input tensors of the shapes \<^verbatim>\<open>forward\<close> passes (\<open>nb\<close> batch elements,
  \<open>np\<close> pairs, three spatial components), the call returns a tensor with one row per
  batch element and one entry per electron, and the entry of electron \<open>i\<close> is J times
  the sum of the direct term over the row and column index arrays (both with sign +1) and
  of the signed scatter-add of the first derivatives, squared and summed over the three
  spatial components.
\<close>

theorem jastrow_second_derivative_formula:
  assumes self: "self = JastrowFactorElectronElectron_init n_up n_down k ed"
    and np: "np = length (index_row self)"
    and lens: "length r = nb" "length dr = nb" "length d2r = nb" "length jast = nb"
    and shape: "\<forall>b < nb. length (r ! b) = np \<and> length (jast ! b) = 1
                  \<and> length (dr ! b) = 3 \<and> length (d2r ! b) = 3
                  \<and> (\<forall>d < 3. length (dr ! b ! d) = np \<and> length (d2r ! b ! d) = np)"
    and d2: "d2 = (\<lambda>b. sum_dim (compute_second_derivative k r dr d2r ! b))"
    and dj: "dj = (\<lambda>b. compute_derivative k r dr ! b)"
  shows "jastrow_factor_second_derivative self r dr d2r jast
           = Inr (map (\<lambda>b. map (\<lambda>i.
                     (gather (index_row self) (d2 b) i + gather (index_col self) (d2 b) i
                      + (\<Sum>row \<leftarrow> dj b. (gather (index_row self) row i
                                             - gather (index_col self) row i)\<^sup>2))
                     * (jast ! b ! 0)) [0 ..< n_up + n_down]) [0 ..< nb])"
proof -
  define n where "n = n_up + n_down"
  define irow where "irow = index_row self"
  define icol where "icol = index_col self"
  define c1 where "c1 = compute_derivative k r dr"
  define c2 where "c2 = compute_second_derivative k r dr d2r"
  define g1 where "g1 = (\<lambda>v. map (\<lambda>i. gather irow v i + 1 * gather icol v i) [0 ..< n])"
  define gm where "gm = (\<lambda>v. map (\<lambda>i. gather irow v i + (- 1) * gather icol v i) [0 ..< n])"
  have f: "jnelec self = n" "jastrow_kernel self = k"
    using init_indices(3,4)[OF self] by (simp_all add: n_def)
  have ix: "length icol = np" "length irow = np" "\<forall>i \<in> set irow. i < n" "\<forall>i \<in> set icol. i < n"
    using init_indices_range[OF self] np by (simp_all add: irow_def icol_def n_def)
  have sh1: "\<forall>b < nb. length (r ! b) = np \<and> length (dr ! b) = 3 \<and> (\<forall>d < 3. length (dr ! b ! d) = np)"
    using shape by auto
  have sh2: "\<forall>b < nb. length (r ! b) = np \<and> length (dr ! b) = 3 \<and> length (d2r ! b) = 3
               \<and> (\<forall>d < 3. length (dr ! b ! d) = np \<and> length (d2r ! b ! d) = np)"
    using shape by auto
  have s1: "length c1 = nb"
    and s1r: "\<forall>b < nb. length (c1 ! b) = 3 \<and> (\<forall>row \<in> set (c1 ! b). length row = np)"
    unfolding c1_def using compute_derivative_shape[OF lens(1,2) sh1] by blast+
  have s2: "length c2 = nb"
    and s2r: "\<forall>b < nb. length (c2 ! b) = 3 \<and> (\<forall>row \<in> set (c2 ! b). length row = np)"
    unfolding c2_def using compute_second_derivative_shape[OF lens(1,2,3) sh2] by blast+
  have A: "collect (map (scatter n irow icol 1) (map sum_dim c2)) = Inr (map g1 (map sum_dim c2))"
  proof (rule collect_map_Inr)
    fix x assume "x \<in> set (map sum_dim c2)"
    then obtain b where b: "b < nb" and x: "x = sum_dim (c2 ! b)"
      using s2 by (auto simp: in_set_conv_nth)
    have "length x = np" unfolding x
      by (rule length_sum_dim) (use s2r b in auto)
    then show "scatter n irow icol 1 x = Inr (g1 x)"
      unfolding g1_def by (intro scatter_ok) (use ix in simp_all)
  qed
  have B: "collect (map (\<lambda>db. collect (map (scatter n irow icol (- 1)) db)) c1) = Inr (map (map gm) c1)"
  proof (rule collect_map_Inr, rule collect_map_Inr)
    fix db row assume a: "db \<in> set c1" "row \<in> set db"
    then obtain b where "b < nb" "db = c1 ! b" using s1 by (auto simp: in_set_conv_nth)
    then have "length row = np" using s1r a(2) by blast
    then show "scatter n irow icol (- 1) row = Inr (gm row)"
      unfolding gm_def by (intro scatter_ok) (use ix in simp_all)
  qed
  define out where "out = map2 bmul (map2 (map2 (+)) (map g1 (map sum_dim c2))
                            (map (\<lambda>ob. sum_dim (map (map (\<lambda>x. x\<^sup>2)) ob)) (map (map gm) c1))) jast"
  have ok: "jastrow_factor_second_derivative self r dr d2r jast = Inr out"
    unfolding jastrow_factor_second_derivative_def partial_derivative_def Let_def bindE_def f
      irow_def[symmetric] icol_def[symmetric] c1_def[symmetric] c2_def[symmetric]
    by (simp only: A B sum.case out_def)
  have lo: "length out = nb" using s1 s2 lens(4) by (simp add: out_def)
  have lob: "length (out ! b) = n" if b: "b < nb" for b
  proof -
    have "map (map (\<lambda>x. x\<^sup>2)) (map gm (c1 ! b)) \<noteq> []" using s1r b by auto
    moreover have "\<forall>row \<in> set (map (map (\<lambda>x. x\<^sup>2)) (map gm (c1 ! b))). length row = n"
      by (auto simp: gm_def)
    ultimately have "length (sum_dim (map (map (\<lambda>x. x\<^sup>2)) (map gm (c1 ! b)))) = n"
      by (rule length_sum_dim)
    moreover have "length (jast ! b) = 1" using shape b by simp
    ultimately show ?thesis
      using b s1 s2 lens(4) by (simp add: out_def bmul_def g1_def)
  qed
  have "out = map (\<lambda>b. map (\<lambda>i.
                     (gather irow (d2 b) i + gather icol (d2 b) i
                      + (\<Sum>row \<leftarrow> dj b. (gather irow row i - gather icol row i)\<^sup>2))
                     * (jast ! b ! 0)) [0 ..< n]) [0 ..< nb]"
  proof (rule nth_equalityI)
    show "length out = length (map (\<lambda>b. map (\<lambda>i.
                     (gather irow (d2 b) i + gather icol (d2 b) i
                      + (\<Sum>row \<leftarrow> dj b. (gather irow row i - gather icol row i)\<^sup>2))
                     * (jast ! b ! 0)) [0 ..< n]) [0 ..< nb])"
      using lo by simp
  next
    fix b assume "b < length out"
    then have b: "b < nb" using lo by simp
    have "out ! b = map (\<lambda>i.
                     (gather irow (d2 b) i + gather icol (d2 b) i
                      + (\<Sum>row \<leftarrow> dj b. (gather irow row i - gather icol row i)\<^sup>2))
                     * (jast ! b ! 0)) [0 ..< n]"
    proof (rule nth_equalityI)
      show "length (out ! b) = length (map (\<lambda>i.
                     (gather irow (d2 b) i + gather icol (d2 b) i
                      + (\<Sum>row \<leftarrow> dj b. (gather irow row i - gather icol row i)\<^sup>2))
                     * (jast ! b ! 0)) [0 ..< n])"
        using lob[OF b] by simp
    next
      fix i assume "i < length (out ! b)"
      then have i: "i < length (out ! b)" "i < n" using lob[OF b] by simp_all
      have "out ! b ! i = (gather (index_row self) (d2 b) i + gather (index_col self) (d2 b) i
            + (\<Sum>row \<leftarrow> dj b. (gather (index_row self) row i - gather (index_col self) row i)\<^sup>2))
           * (jast ! b ! 0)"
        by (rule jastrow_second_derivative_entry[OF ok _ i(1)])
           (use b lo shape in \<open>simp_all add: d2 dj f\<close>)
      then show "out ! b ! i = map (\<lambda>i.
                     (gather irow (d2 b) i + gather icol (d2 b) i
                      + (\<Sum>row \<leftarrow> dj b. (gather irow row i - gather icol row i)\<^sup>2))
                     * (jast ! b ! 0)) [0 ..< n] ! i"
        using i(2) by (simp add: irow_def icol_def)
    qed
    then show "out ! b = map (\<lambda>b. map (\<lambda>i.
                     (gather irow (d2 b) i + gather icol (d2 b) i
                      + (\<Sum>row \<leftarrow> dj b. (gather irow row i - gather icol row i)\<^sup>2))
                     * (jast ! b ! 0)) [0 ..< n]) [0 ..< nb] ! b"
      using b by simp
  qed
  then show ?thesis using ok by (simp add: irow_def icol_def n_def)
qed

theorem jastrow_second_derivative_formula_witness:
  "jastrow_factor_second_derivative jastrow3 [[1, 2, 1]]
        [[[- 1, - 1, - 1], [0, 0, 0], [0, 0, 0]]]
        [[[0, 0, 0], [1, 1 / 2, 1], [1, 1 / 2, 1]]] [[exp (5 / 3)]]
     = Inr [[541 / 1296 * exp (5 / 3), 1 / 2 * exp (5 / 3), 541 / 1296 * exp (5 / 3)]]"
proof -
  let ?r = "[[1, 2, 1 :: real]]"
  let ?dr = "[[[- 1, - 1, - 1], [0, 0, 0], [0, 0, 0 :: real]]]"
  let ?d2r = "[[[0, 0, 0], [1, 1 / 2, 1], [1, 1 / 2, 1 :: real]]]"
  let ?j = "[[exp (5 / 3 :: real)]]"
  have p1: "jastrow3 = JastrowFactorElectronElectron_init 2 1 pade_kernel edist_plain"
    by (simp add: jastrow3_def)
  have p2: "3 = length (index_row jastrow3)" by (simp add: jastrow3_eq)
  have p3: "length ?r = 1" "length ?dr = 1" "length ?d2r = 1" "length ?j = 1" by simp_all
  have p4: "\<forall>b < 1. length (?r ! b) = 3 \<and> length (?j ! b) = 1 \<and> length (?dr ! b) = 3 \<and> length (?d2r ! b) = 3
              \<and> (\<forall>d < 3. length (?dr ! b ! d) = 3 \<and> length (?d2r ! b ! d) = 3)"
    by (simp add: less_Suc_eq numeral_3_eq_3)
  have c2: "sum_dim (compute_second_derivative pade_kernel ?r ?dr ?d2r ! 0) = [1 / 4, 1 / 27, 1 / 4]"
    by (simp add: compute_second_derivative_def pade_kernel_def sum_dim_def power2_eq_square power3_eq_cube)
  have c1: "compute_derivative pade_kernel ?r ?dr ! 0 = [[- (1 / 4), - (1 / 9), - (1 / 4)], [0, 0, 0], [0, 0, 0]]"
    by (simp add: compute_derivative_def pade_kernel_def power2_eq_square)
  have ix: "index_row jastrow3 = [0, 0, 1]" "index_col jastrow3 = [1, 2, 2]" by (simp_all add: jastrow3_eq)
  show ?thesis
    unfolding jastrow_second_derivative_formula[OF p1 p2 p3 p4 refl refl]
    by (simp add: c1 c2 ix upt3 gather_def power2_eq_square)
qed

section \<open>The single-electron update\<close>

lemma squeeze1_ok: "\<forall>b \<in> set V. length b = 1 \<Longrightarrow> squeeze1 V = Inr (map (\<lambda>b. b ! 0) V)"
proof -
  assume a: "\<forall>b \<in> set V. length b = 1"
  have "map hd V = map (\<lambda>b. b ! 0) V"
  proof (rule map_cong[OF refl])
    fix x assume "x \<in> set V"
    with a have "length x = 1" by simp
    then show "hd x = x ! 0" by (cases x) auto
  qed
  with a show ?thesis by (simp add: squeeze1_def)
qed

lemma assign_elec_ok:
  assumes "length vals = length ao"
    and "\<forall>b < length ao. idelec < length (ao ! b) \<and> length (vals ! b) = length (ao ! b ! idelec)"
  shows "assign_elec ao idelec vals = Inr (map2 (\<lambda>b v. b[idelec := v]) ao vals)"
proof -
  have 1: "\<not> (\<exists>b \<in> set ao. length b \<le> idelec)"
    using assms(2) by (auto simp: in_set_conv_nth not_le)
  have 2: "bc (length ao) vals = Inr vals" using assms(1) by (simp add: bc_def)
  have 3: "collect (map2 (\<lambda>b v. bc (length (b ! idelec)) v) ao vals) = Inr (map2 (\<lambda>b v. v) ao vals)"
    by (rule collect_map2_Inr) (use assms in \<open>auto simp: bc_def\<close>)
  have 4: "map2 (\<lambda>b v. v) ao vals = vals"
    using assms(1) by (auto intro!: nth_equalityI)
  show ?thesis by (simp add: assign_elec_def 1 2 3 4 bindE_def)
qed


lemma update_unfold:
  assumes fw: "forward self (map (\<lambda>row. take 3 (drop (idelec * 3) row)) pos) (PList [0]) True True True
                 = (Inr (AO V), self1)"
    and sq: "squeeze1 V = Inr vals"
    and asg: "assign_elec (st ! a) idelec vals = Inr t"
    and a: "a < length st"
  shows "update self st a pos idelec = (Inr (length st), st @ [t], self1)"
  using assms by (simp add: update_def clone_def Let_def bindE_def nth_append)

lemma ao_h2_forward_one:
  "forward ao_h2 [[a, b, c]] (PList [0]) True True True
     = (Inr (AO [[[exp (- sqrt (a * a + b * b + c * c)) * 0.2820948]]]), ao_h2)"
  using compute_ao_values_h2_one[of a b c]
  by (simp add: forward_def as_list_def py_in_def bindE_def Let_def ao_h2_fields0 ao_h2_restore)

lemma ao_h2_update_eval:
  "update ao_h2 [[[[exp (- 1) * 0.2820948], [exp (- 2) * 0.2820948]]]] 0 [[2, 0, 0, 0, 0, 2]] 0
     = (Inr 1, [[[[exp (- 1) * 0.2820948], [exp (- 2) * 0.2820948]]],
                [[[exp (- 2) * 0.2820948], [exp (- 2) * 0.2820948]]]], ao_h2)"
proof -
  have fw: "forward ao_h2 (map (\<lambda>row. take 3 (drop (0 * 3) row)) [[2, 0, 0, 0, 0, 2]]) (PList [0]) True True True
              = (Inr (AO [[[exp (- 2) * 0.2820948]]]), ao_h2)"
    using ao_h2_forward_one[of 2 0 0] by simp
  have sq: "squeeze1 [[[exp (- 2) * 0.2820948]]] = Inr [[exp (- 2) * 0.2820948 :: real]]"
    by (simp add: squeeze1_def)
  have asg: "assign_elec ([[[[exp (- 1) * 0.2820948], [exp (- 2) * 0.2820948]]]] ! 0) 0 [[exp (- 2) * 0.2820948]]
               = Inr [[[exp (- 2) * 0.2820948], [exp (- 2) * 0.2820948 :: real]]]"
    by (simp add: assign_elec_def bc_def bindE_def)
  show ?thesis using update_unfold[OF fw sq asg] by simp
qed

text \<open>
  C8, as stated (\<^verbatim>\<open>update\<close> mutates the previously computed tensor in place), is false:
  \<^verbatim>\<open>update\<close> starts with \<^verbatim>\<open>ao_new = ao.clone()\<close> and writes into the copy.  After the
  call below the tensor passed in (reference 0) still holds the old value of electron 0;
  the recomputed value is in the new tensor (reference 1) that the call returns.
\<close>

theorem update_in_place_counterexample:
  "update ao_h2 [[[[exp (- 1) * 0.2820948], [exp (- 2) * 0.2820948]]]] 0 [[2, 0, 0, 0, 0, 2]] 0
     = (Inr 1, [[[[exp (- 1) * 0.2820948], [exp (- 2) * 0.2820948]]],
                [[[exp (- 2) * 0.2820948], [exp (- 2) * 0.2820948]]]], ao_h2)
   \<and> [[[[exp (- 1) * 0.2820948], [exp (- 2) * 0.2820948]]],
        [[[exp (- 2) * 0.2820948], [exp (- 2) * 0.2820948]]]] ! 0 ! 0 ! 0 \<noteq> [exp (- 2) * 0.2820948 :: real]"
  using ao_h2_update_eval by simp

text \<open>
  C8, amended: \<^verbatim>\<open>update(ao, pos, idelec)\<close> does not modify \<open>ao\<close>; it returns a new tensor,
  a copy of \<open>ao\<close> in which the row of electron \<open>idelec\<close> holds the values recomputed from
  \<^verbatim>\<open>pos[:, 3*idelec : 3*idelec+3]\<close> and the row of every other electron is that of \<open>ao\<close>.
  \<open>V\<close> is the one-electron evaluation, of shape batch x 1 x orbital; the batch and
  orbital sizes of \<open>V\<close> and \<open>ao\<close> agree.
\<close>

theorem update_returns_fresh_copy:
  assumes a: "a < length st"
    and fw: "forward self (map (\<lambda>row. take 3 (drop (idelec * 3) row)) pos) (PList [0]) True True True
               = (Inr (AO V), self1)"
    and len: "length V = length (st ! a)"
    and shape: "\<forall>b < length V. length (V ! b) = 1 \<and> idelec < length (st ! a ! b)
                  \<and> length (V ! b ! 0) = length (st ! a ! b ! idelec)"
  shows "\<exists>st'. update self st a pos idelec = (Inr (length st), st', self)
          \<and> length st' = Suc (length st) \<and> (\<forall>k < length st. st' ! k = st ! k)
          \<and> length (st' ! length st) = length (st ! a)
          \<and> (\<forall>b < length (st ! a). st' ! length st ! b ! idelec = V ! b ! 0
                \<and> (\<forall>e. e \<noteq> idelec \<longrightarrow> st' ! length st ! b ! e = st ! a ! b ! e))"
proof -
  define vals where "vals = map (\<lambda>b. b ! 0) V"
  define t where "t = map2 (\<lambda>b v. b[idelec := v]) (st ! a) vals"
  have s1: "self1 = self" using fw by (rule forward_ok_same_object)
  have sq: "squeeze1 V = Inr vals"
    unfolding vals_def by (rule squeeze1_ok) (use shape in \<open>auto simp: in_set_conv_nth\<close>)
  have asg: "assign_elec (st ! a) idelec vals = Inr t"
    unfolding t_def by (rule assign_elec_ok) (use len shape in \<open>auto simp: vals_def\<close>)
  have u: "update self st a pos idelec = (Inr (length st), st @ [t], self)"
    using update_unfold[OF fw sq asg a] s1 by simp
  have lt: "length t = length (st ! a)" using len by (simp add: t_def vals_def)
  have rows: "t ! b ! idelec = V ! b ! 0 \<and> (\<forall>e. e \<noteq> idelec \<longrightarrow> t ! b ! e = st ! a ! b ! e)"
    if "b < length (st ! a)" for b
    using that len shape by (simp add: t_def vals_def)
  show ?thesis
    by (rule exI[of _ "st @ [t]"]) (use u lt rows in \<open>simp add: nth_append\<close>)
qed

theorem update_returns_fresh_copy_witness:
  "\<exists>st'. update ao_h2 [[[[exp (- 1) * 0.2820948], [exp (- 2) * 0.2820948]]]] 0 [[2, 0, 0, 0, 0, 2]] 0
           = (Inr 1, st', ao_h2)
     \<and> length st' = 2
     \<and> st' ! 0 = [[[exp (- 1) * 0.2820948], [exp (- 2) * 0.2820948]]]
     \<and> st' ! 1 ! 0 ! 0 = [exp (- 2) * 0.2820948]
     \<and> st' ! 1 ! 0 ! 1 = [exp (- 2) * 0.2820948]"
proof -
  let ?st = "[[[[exp (- 1) * 0.2820948], [exp (- 2) * 0.2820948 :: real]]]]"
  let ?V = "[[[exp (- 2) * 0.2820948 :: real]]]"
  have a: "0 < length ?st" by simp
  have fw: "forward ao_h2 (map (\<lambda>row. take 3 (drop (0 * 3) row)) [[2, 0, 0, 0, 0, 2]]) (PList [0]) True True True
              = (Inr (AO ?V), ao_h2)"
    using ao_h2_forward_one[of 2 0 0] by simp
  have len: "length ?V = length (?st ! 0)" by simp
  have shape: "\<forall>b < length ?V. length (?V ! b) = 1 \<and> 0 < length (?st ! 0 ! b)
                 \<and> length (?V ! b ! 0) = length (?st ! 0 ! b ! 0)"
    by simp
  from update_returns_fresh_copy[OF a fw len shape]
  obtain st' where u: "update ao_h2 ?st 0 [[2, 0, 0, 0, 0, 2]] 0 = (Inr (length ?st), st', ao_h2)"
    and l: "length st' = Suc (length ?st)" and k: "\<forall>k < length ?st. st' ! k = ?st ! k"
    and r: "\<forall>b < length (?st ! 0). st' ! length ?st ! b ! 0 = ?V ! b ! 0
              \<and> (\<forall>e. e \<noteq> 0 \<longrightarrow> st' ! length ?st ! b ! e = ?st ! 0 ! b ! e)"
    by blast
  from r have r0: "st' ! 1 ! 0 ! 0 = [exp (- 2) * 0.2820948]"
    and r1: "st' ! 1 ! 0 ! 1 = [exp (- 2) * 0.2820948]"
    by simp_all
  from k have k0: "st' ! 0 = [[[exp (- 1) * 0.2820948], [exp (- 2) * 0.2820948]]]" by simp
  show ?thesis
    by (rule exI[of _ st']) (use u l k0 r0 r1 in simp)
qed


section \<open>The update against a full recomputation\<close>

text \<open>
  The values \<^verbatim>\<open>forward\<close> returns for a well-formed object, electron by electron: every
  step of \<^verbatim>\<open>_compute_ao_values\<close> is evaluated on a batch of well-shaped rows.
\<close>

lemma chunks_aux_concat:
  "0 < n \<Longrightarrow> \<forall>r \<in> set xss. length r = n \<Longrightarrow> chunks_aux (length xss) n (concat xss) = xss"
  by (induction xss) auto

lemma length_concat_const: "\<forall>r \<in> set xss. length r = n \<Longrightarrow> length (concat xss) = length xss * n"
  by (induction xss) auto

lemma chunks_concat:
  assumes "0 < n" and "\<forall>r \<in> set xss. length r = n"
  shows "chunks n (concat xss) = xss"
proof -
  have "length (concat xss) div n = length xss"
    using length_concat_const[OF assms(2)] assms(1) by simp
  then show ?thesis using chunks_aux_concat[OF assms] by (simp add: chunks_def)
qed

lemma view_pos_ok:
  assumes "0 < ne" and "\<forall>row \<in> set pos. length row = 3 * ne"
  shows "view_pos ne pos = Inr (map electrons pos)"
proof -
  have "\<forall>row \<in> set pos. length row = ne * 3" using assms(2) by (simp add: mult.commute)
  then have "chunks (ne * 3) (concat pos) = pos" "length (concat pos) = length pos * (ne * 3)"
    using assms(1) chunks_concat[of "ne * 3" pos] length_concat_const[of pos "ne * 3"] by simp_all
  then show ?thesis using assms(1) by (simp add: view_pos_def electrons_def Let_def)
qed

lemma length_chunks_aux: "length (chunks_aux c n xs) = c"
  by (induction c arbitrary: xs) auto

lemma nth_chunks_aux: "i < c \<Longrightarrow> chunks_aux c n xs ! i = take n (drop (i * n) xs)"
proof (induction c arbitrary: xs i)
  case 0
  then show ?case by simp
next
  case (Suc c)
  show ?case
  proof (cases i)
    case 0
    then show ?thesis by simp
  next
    case (Suc j)
    then have "j < c" using Suc.prems by simp
    then show ?thesis using Suc.IH[of j "drop n xs"] Suc by (simp add: add.commute)
  qed
qed

lemma length_electrons: "length (electrons row) = length row div 3"
  by (simp add: electrons_def chunks_def length_chunks_aux)

lemma electrons_slice:
  assumes "length row = 3 * ne" and "i < ne"
  shows "electrons (take 3 (drop (i * 3) row)) = [electrons row ! i]"
proof -
  have l: "length (take 3 (drop (i * 3) row)) = 3" using assms by simp
  have "chunks 3 (take 3 (drop (i * 3) row)) = [take 3 (drop (i * 3) row)]"
    unfolding chunks_def l by (simp add: l)
  moreover have "chunks 3 row ! i = take 3 (drop (i * 3) row)"
    unfolding chunks_def using assms by (simp add: nth_chunks_aux)
  moreover have "i < length (chunks 3 row)"
    unfolding chunks_def using assms by (simp add: length_chunks_aux)
  ultimately show ?thesis by (simp add: electrons_def)
qed

lemma map2_same: "map2 f (map a xs) (map b xs) = map (\<lambda>x. f (a x) (b x)) xs"
  by (induction xs) auto

lemma repeat_interleave_ok:
  assumes "length reps = length xs"
  shows "repeat_interleave reps xs = Inr (concat (map2 replicate reps xs))"
proof -
  have "(if length reps = 1 then replicate (length xs) (hd reps) else reps) = reps"
  proof (cases "length reps = 1")
    case True
    then obtain a where a: "reps = [a]" by (cases reps) auto
    then have "length xs = Suc 0" using assms by simp
    then show ?thesis using a by simp
  qed simp
  then show ?thesis using assms by (simp add: repeat_interleave_def Let_def)
qed

lemma repeat_interleave2_ok:
  assumes "\<forall>b \<in> set t. \<forall>row \<in> set b. length row = length reps"
  shows "repeat_interleave2 reps t = Inr (map (map (\<lambda>row. concat (map2 replicate reps row))) t)"
  unfolding repeat_interleave2_def
  apply (rule collect_map_Inr)
  apply (rule collect_map_Inr)
  using assms by (simp add: repeat_interleave_ok)

lemma concat_replicate_map:
  "concat (map2 replicate reps (map f xs)) = map f (concat (map2 replicate reps xs))"
proof (induction xs arbitrary: reps)
  case Nil
  then show ?case by simp
next
  case (Cons x xs)
  then show ?case by (cases reps) auto
qed

lemma length_concat_replicate:
  "length reps = length xs \<Longrightarrow> length (concat (map2 replicate reps xs)) = sum_list reps"
proof (induction xs arbitrary: reps)
  case Nil
  then show ?case by simp
next
  case (Cons x xs)
  then show ?case by (cases reps) auto
qed

lemma process_position_ok:
  assumes "0 < nelec self" and "\<forall>row \<in> set pos. length row = 3 * nelec self"
    and "length (nshells self) = length (atom_coords self)"
  shows "process_position self pos
           = Inr (map (map (xyz_row self)) (map electrons pos),
                  map (map (\<lambda>e. map (\<lambda>v. sqrt (vsum (vmul v v))) (xyz_row self e))) (map electrons pos))"
proof -
  let ?P = "map electrons pos"
  let ?xyz = "map (map (\<lambda>e. map (\<lambda>a. vsub e a) (atom_coords self))) ?P"
  let ?r = "tmap (\<lambda>v. sqrt (vsum (vmul v v))) ?xyz"
  have e: "elec_atom_dist self pos = Inr (?xyz, ?r)"
    by (simp add: elec_atom_dist_def view_pos_ok[OF assms(1,2)] bindE_def Let_def)
  have x: "repeat_interleave2 (nshells self) ?xyz = Inr (map (map (xyz_row self)) ?P)"
    using repeat_interleave2_ok[of ?xyz "nshells self"] assms(3)
    by (simp add: xyz_row_def o_def)
  have r: "repeat_interleave2 (nshells self) ?r
             = Inr (map (map (\<lambda>e. map (\<lambda>v. sqrt (vsum (vmul v v))) (xyz_row self e))) ?P)"
    using repeat_interleave2_ok[of ?r "nshells self"] assms(3)
    by (simp add: xyz_row_def o_def tmap_def concat_replicate_map)
  show ?thesis
    unfolding process_position_def e bindE_def
    by (simp only: sum.case prod.case x r)
qed

lemma radial_value_ok:
  "radial_call rf r n z None [0] True True
     = Inr (Single (TS (bcast (\<lambda>(nn, e) rr. rad rf rr nn e) (zip n z) r)))"
  by (simp add: radial_call_def radial_fns_def pack_def)

lemma harmonics_value_ok:
  assumes "harmonics_inv h n"
  shows "Harmonics_call h xyz [0] True True = Inr (Single (TS (map (map (harm_row h)) xyz)))"
proof (cases "htype h = ''cart''")
  case True
  with assms obtain k where k: "bas_k h = Some k"
    by (auto simp: harmonics_inv_def split: option.splits)
  show ?thesis
    by (simp add: Harmonics_call_def True k CartesianHarmonics_def cart_fns_def pack_def
        bcast_def harm_row_def)
next
  case False
  with assms have s: "htype h = ''sph''" by (auto simp: harmonics_inv_def split: if_splits)
  with assms obtain l m where lm: "bas_l h = Some l" "bas_m h = Some m"
    by (auto simp: harmonics_inv_def split: option.splits)
  show ?thesis
    by (simp add: Harmonics_call_def s lm SphericalHarmonics_def pack_def
        get_spherical_harmonics_def bcast_def harm_row_def)
qed

lemma length_harm_row:
  "harmonics_inv h n \<Longrightarrow> length xyz = n \<Longrightarrow> length (harm_row h xyz) = n"
  by (auto simp: harmonics_inv_def harm_row_def split: if_splits option.splits)

lemma tmap2_same: "tmap2 f (map (map a) P) (map (map b) P) = map (map (\<lambda>e. map2 f (a e) (b e))) P"
  by (simp add: tmap2_def map2_same)

lemma bcast_map: "bcast f ps (map (map a) P) = map (map (\<lambda>e. map2 f ps (a e))) P"
  by (simp add: bcast_def)

lemma index_add_row_zero:
  assumes "length index = length src" and "\<forall>i \<in> set index. i < m"
  shows "index_add_row (+) (replicate m 0) index src = Inr (map (gather index src) [0 ..< m])"
proof -
  have "index_add_row (+) (replicate m 0) index src
          = Inr (map (\<lambda>i. replicate m 0 ! i + gather index src i) [0 ..< length (replicate m (0::real))])"
    by (rule index_add_row_ok) (use assms in simp_all)
  also have "map (\<lambda>i. replicate m 0 ! i + gather index src i) [0 ..< length (replicate m (0::real))]
               = map (gather index src) [0 ..< m]"
    by (rule nth_equalityI) simp_all
  finally show ?thesis .
qed

lemma index_add2_ok:
  fixes src :: "real list list list"
  assumes sh: "\<forall>b \<in> set src. length b = ne \<and> (\<forall>row \<in> set b. length row = length index)"
    and ix: "\<forall>i \<in> set index. i < m"
  shows "index_add2 (+) (zeros (length src) ne m 0) index src
           = Inr (map (map (\<lambda>row. map (gather index row) [0 ..< m])) src)"
proof -
  let ?g = "\<lambda>row. map (gather index row) [0 ..< m]"
  have shp: "map length (zeros (length src) ne m (0::real)) = map length src"
    using sh by (auto simp: zeros_def intro!: nth_equalityI)
  have rows: "collect (map2 (\<lambda>orow srow. index_add_row (+) orow index srow) (replicate ne (replicate m (0::real))) b)
                = Inr (map ?g b)" if "b \<in> set src" for b
  proof -
    have lb: "length b = ne" and lr: "\<forall>row \<in> set b. length row = length index" using sh that by auto
    have "collect (map2 (\<lambda>orow srow. index_add_row (+) orow index srow) (replicate ne (replicate m (0::real))) b)
            = Inr (map2 (\<lambda>orow srow. ?g srow) (replicate ne (replicate m (0::real))) b)"
    proof (rule collect_map2_Inr)
      show "length (replicate ne (replicate m (0::real))) = length b" using lb by simp
    next
      fix i assume "i < length (replicate ne (replicate m (0::real)))"
      then have i: "i < ne" by simp
      then have "length index = length (b ! i)" using lb lr by auto
      then show "index_add_row (+) (replicate ne (replicate m (0::real)) ! i) index (b ! i) = Inr (?g (b ! i))"
        using i index_add_row_zero[of index "b ! i" m] ix by simp
    qed
    also have "map2 (\<lambda>orow srow. ?g srow) (replicate ne (replicate m (0::real))) b = map ?g b"
      using lb by (auto intro!: nth_equalityI)
    finally show ?thesis .
  qed
  have "collect (map2 (\<lambda>ob sb. collect (map2 (\<lambda>orow srow. index_add_row (+) orow index srow) ob sb))
                  (zeros (length src) ne m (0::real)) src)
          = Inr (map2 (\<lambda>ob sb. map ?g sb) (zeros (length src) ne m (0::real)) src)"
  proof (rule collect_map2_Inr)
    show "length (zeros (length src) ne m (0::real)) = length src" by (simp add: zeros_def)
  next
    fix i assume "i < length (zeros (length src) ne m (0::real))"
    then have i: "i < length src" by (simp add: zeros_def)
    then show "collect (map2 (\<lambda>orow srow. index_add_row (+) orow index srow)
                 (zeros (length src) ne m (0::real) ! i) (src ! i)) = Inr (map ?g (src ! i))"
      using rows[of "src ! i"] by (simp add: zeros_def)
  qed
  also have "map2 (\<lambda>ob sb. map ?g sb) (zeros (length src) ne m (0::real)) src = map (map ?g) src"
    by (auto intro!: nth_equalityI simp: zeros_def)
  finally show ?thesis using shp by (simp add: index_add2_def)
qed

lemma length_xyz_row:
  "length (nshells self) = length (atom_coords self) \<Longrightarrow> length (xyz_row self e) = nbas self"
  by (simp add: xyz_row_def nbas_def length_concat_replicate)

lemma ao_kernel_ok:
  assumes inv: "ao_inv self" and sh: "\<forall>b \<in> set P. length b = nelec self"
  shows "ao_kernel self
           (map (map (\<lambda>e. map2 (\<lambda>(nn, z) rr. rad (radial self) rr nn z) (zip (bas_n self) (bas_exp self))
                             (map (\<lambda>v. sqrt (vsum (vmul v v))) (xyz_row self e)))) P)
           (map (map (\<lambda>e. harm_row (harmonics self) (xyz_row self e))) P)
         = Inr (map (map (ao_row self)) P)"
proof -
  let ?R = "\<lambda>e. map2 (\<lambda>(nn, z) rr. rad (radial self) rr nn z) (zip (bas_n self) (bas_exp self))
                   (map (\<lambda>v. sqrt (vsum (vmul v v))) (xyz_row self e))"
  let ?Y = "\<lambda>e. harm_row (harmonics self) (xyz_row self e)"
  let ?A = "\<lambda>e. map2 (*) (map2 (*) (norm_cst self) (?R e)) (?Y e)"
  have n: "length (nshells self) = length (atom_coords self)" "length (index_ctr self) = nbas self"
    "length (bas_coeffs self) = nbas self" "length (bas_exp self) = nbas self"
    "length (bas_n self) = nbas self" "length (norm_cst self) = nbas self"
    "harmonics_inv (harmonics self) (nbas self)" "\<forall>i \<in> set (index_ctr self). i < norb self"
    using inv by (simp_all add: ao_inv_def list_all_iff)
  have ao: "tmap2 (*) (bcast (*) (norm_cst self) (map (map ?R) P)) (map (map ?Y) P) = map (map ?A) P"
    by (simp add: bcast_map tmap2_same)
  have lA: "length (?A e) = nbas self" for e
    using n by (simp add: length_xyz_row length_harm_row)
  show ?thesis
  proof (cases "contract self")
    case False
    have "?A = ao_row self"
      by (rule ext) (simp add: ao_row_def False xyz_row_def Let_def)
    then show ?thesis unfolding ao_kernel_def ao Let_def using False by simp
  next
    case True
    let ?src = "map (map (\<lambda>e. map2 (*) (bas_coeffs self) (?A e))) P"
    have shs: "\<forall>b \<in> set ?src. length b = nelec self \<and> (\<forall>row \<in> set b. length row = length (index_ctr self))"
      using sh n(2,3) lA by auto
    have "contract' self (map (map ?A) P)
            = index_add2 (+) (zeros (length ?src) (nelec self) (norb self) 0) (index_ctr self) ?src"
      by (simp add: contract'_def bcast_map Let_def)
    also have "\<dots> = Inr (map (map (\<lambda>row. map (gather (index_ctr self) row) [0 ..< norb self])) ?src)"
      by (rule index_add2_ok[OF shs n(8)])
    also have "map (map (\<lambda>row. map (gather (index_ctr self) row) [0 ..< norb self])) ?src
                 = map (map (ao_row self)) P"
      by (simp add: ao_row_def True xyz_row_def Let_def o_def)
    finally show ?thesis unfolding ao_kernel_def ao Let_def using True by simp
  qed
qed

lemma compute_ao_values_ok:
  assumes inv: "ao_inv self" and sh: "\<forall>row \<in> set pos. length row = 3 * nelec self"
  shows "compute_ao_values self pos = Inr (map (map (ao_row self)) (map electrons pos))"
proof -
  define P where "P = map electrons pos"
  let ?R = "\<lambda>e. map2 (\<lambda>(nn, z) rr. rad (radial self) rr nn z) (zip (bas_n self) (bas_exp self))
                   (map (\<lambda>v. sqrt (vsum (vmul v v))) (xyz_row self e))"
  let ?Y = "\<lambda>e. harm_row (harmonics self) (xyz_row self e)"
  have n: "0 < nelec self" "length (nshells self) = length (atom_coords self)"
    "harmonics_inv (harmonics self) (nbas self)"
    using inv by (simp_all add: ao_inv_def)
  have shP: "\<forall>b \<in> set P. length b = nelec self"
    using sh by (auto simp: length_electrons P_def)
  have pp: "process_position self pos
              = Inr (map (map (xyz_row self)) P,
                     map (map (\<lambda>e. map (\<lambda>v. sqrt (vsum (vmul v v))) (xyz_row self e))) P)"
    unfolding P_def by (rule process_position_ok[OF n(1) sh n(2)])
  have rc: "radial_call (radial self)
              (map (map (\<lambda>e. map (\<lambda>v. sqrt (vsum (vmul v v))) (xyz_row self e))) P)
              (bas_n self) (bas_exp self) None [0] True True
            = Inr (Single (TS (map (map ?R) P)))"
    by (simp add: radial_value_ok bcast_map)
  have hc: "Harmonics_call (harmonics self) (map (map (xyz_row self)) P) [0] True True
            = Inr (Single (TS (map (map ?Y) P)))"
    by (simp add: harmonics_value_ok[OF n(3)] o_def)
  have "compute_ao_values self pos = ao_kernel self (map (map ?R) P) (map (map ?Y) P)"
    unfolding compute_ao_values_def pp bindE_def
    by (simp only: sum.case prod.case rc hc unpackS_def hresult.case htensor.case)
  also have "\<dots> = Inr (map (map (ao_row self)) P)"
    by (rule ao_kernel_ok[OF inv shP])
  finally show ?thesis by (simp add: P_def)
qed

lemma forward_value_ok:
  assumes "ao_inv self" and "\<forall>row \<in> set pos. length row = 3 * nelec self"
  shows "forward self pos (PList [0]) True True False
           = (Inr (AO (map (map (ao_row self)) (map electrons pos))), self)"
  using compute_ao_values_ok[OF assms]
  by (simp add: forward_def as_list_def py_in_def bindE_def Let_def)

lemma ao_inv_one: "ao_inv self \<Longrightarrow> ao_inv (self\<lparr>nelec := 1\<rparr>)"
  by (simp add: ao_inv_def nbas_def)

lemma ao_row_one: "ao_row (self\<lparr>nelec := n\<rparr>) = ao_row self"
  by (rule ext) (simp add: ao_row_def Let_def)

lemma forward_one_ok:
  assumes inv: "ao_inv self" and sh: "\<forall>row \<in> set pos. length row = 3 * nelec self"
    and i: "i < nelec self"
  shows "forward self (map (\<lambda>row. take 3 (drop (i * 3) row)) pos) (PList [0]) True True True
           = (Inr (AO (map (\<lambda>row. [ao_row self (electrons row ! i)]) pos)), self)"
proof -
  let ?sl = "map (\<lambda>row. take 3 (drop (i * 3) row)) pos"
  have s1: "\<forall>row \<in> set ?sl. length row = 3 * nelec (self\<lparr>nelec := 1\<rparr>)"
    using sh i by auto
  have "compute_ao_values (self\<lparr>nelec := 1\<rparr>) ?sl
          = Inr (map (map (ao_row self)) (map electrons ?sl))"
    using compute_ao_values_ok[OF ao_inv_one[OF inv] s1] by (simp add: ao_row_one)
  also have "map (map (ao_row self)) (map electrons ?sl) = map (\<lambda>row. [ao_row self (electrons row ! i)]) pos"
    using sh i by (simp add: electrons_slice)
  finally have c: "compute_ao_values (self\<lparr>nelec := 1\<rparr>) ?sl
                     = Inr (map (\<lambda>row. [ao_row self (electrons row ! i)]) pos)" .
  show ?thesis
    using c by (simp add: forward_def as_list_def py_in_def bindE_def Let_def)
qed

lemma length_ao_row:
  assumes "ao_inv self"
  shows "length (ao_row self e) = (if contract self then norb self else nbas self)"
proof -
  have n: "length (nshells self) = length (atom_coords self)"
    "length (bas_exp self) = nbas self" "length (bas_n self) = nbas self"
    "length (norm_cst self) = nbas self" "harmonics_inv (harmonics self) (nbas self)"
    using assms by (simp_all add: ao_inv_def)
  have x: "length (concat (map2 replicate (nshells self) (map (\<lambda>a. vsub e a) (atom_coords self)))) = nbas self"
    using length_xyz_row[OF n(1), of e] by (simp add: xyz_row_def)
  show ?thesis
    using n(2-5) x by (simp add: ao_row_def Let_def length_harm_row)
qed

lemma electrons_nth:
  assumes "length row = 3 * ne" and "j < ne"
  shows "electrons row ! j = (row ! (3 * j), row ! (3 * j + 1), row ! (3 * j + 2))"
proof -
  have l: "length row div 3 = ne" using assms(1) by simp
  have "electrons row ! j = to_vec3 (take 3 (drop (j * 3) row))"
    using assms(2) by (simp add: electrons_def chunks_def l length_chunks_aux nth_chunks_aux)
  also have "\<dots> = (row ! (3 * j), row ! (3 * j + 1), row ! (3 * j + 2))"
    using assms by (simp add: to_vec3_def mult.commute)
  finally show ?thesis .
qed

lemma length_electrons_ne: "length row = 3 * ne \<Longrightarrow> length (electrons row) = ne"
  by (simp add: length_electrons)

lemma ao_h2_xyz_row: "xyz_row ao_h2 (x, y, z) = [(x, y, z)]"
  by (simp add: xyz_row_def ao_h2_def vsub_def)

lemma ao_h2_pos: "0 < nelec ao_h2" "length (nshells ao_h2) = length (atom_coords ao_h2)"
  by (simp_all add: ao_h2_def)

lemma process_position_h2_two:
  "process_position ao_h2 [[a, b, c, d, e, f]]
     = Inr ([[[(a, b, c)], [(d, e, f)]]],
            [[[sqrt (a * a + b * b + c * c)], [sqrt (d * d + e * e + f * f)]]])"
proof -
  have sh: "\<forall>row \<in> set [[a, b, c, d, e, f]]. length row = 3 * nelec ao_h2"
    by (simp add: ao_h2_def)
  show ?thesis
    unfolding process_position_ok[OF ao_h2_pos(1) sh ao_h2_pos(2)]
    by (simp add: electrons2 ao_h2_xyz_row vmul_def vsum_def)
qed

lemma sh1_l0_d1: "get_spherical_harmonics1 v 0 m 1 = 0"
  by (simp add: get_spherical_harmonics1_def nabla_spherical_harmonics_l0_def sel_def)

lemma gsh_s_two:
  "get_spherical_harmonics [[[v], [w]]] [0] [0] 0 = [[[0.2820948], [0.2820948]]]"
  "get_spherical_harmonics [[[v], [w]]] [0] [0] 1 = [[[0], [0]]]"
  by (simp_all add: get_spherical_harmonics_def bcast_def sh1_l0 sh1_l0_d1)

lemma harmonics_s_sum_grad:
  "Harmonics_call harmonics_s [[[v], [w]]] [0, 1] True True
     = Inr (Multi [TS [[[0.2820948], [0.2820948]]], TS [[[0], [0]]]])"
  by (simp add: Harmonics_call_def harmonics_s_def SphericalHarmonics_def pack_def gsh_s_two)

lemma radial_h2_sum_grad:
  "radial_call radial_slater_pure [[[r1], [r2]]] [0] [1] (Some [[[(a, b, c)], [(d, e, f)]]]) [0, 1] True True
     = Inr (Multi [TS [[[exp (- r1)], [exp (- r2)]]],
                   TS [[[- exp (- r1) / r1 * (a + b + c)], [- exp (- r2) / r2 * (d + e + f)]]]])"
  by (simp add: radial_call_def radial_fns_def radial_slater_pure_def bcast_def tmap2_def pack_def
      smul_def vsum_def algebra_simps add_divide_distrib)

lemma compute_sum_gradient_h2_two:
  "compute_sum_gradient_ao_values ao_h2 [[a, b, c, d, e, f]]
     = Inr [[[- exp (- sqrt (a * a + b * b + c * c)) / sqrt (a * a + b * b + c * c) * (a + b + c) * 0.2820948],
             [- exp (- sqrt (d * d + e * e + f * f)) / sqrt (d * d + e * e + f * f) * (d + e + f) * 0.2820948]]]"
  unfolding compute_sum_gradient_ao_values_def process_position_h2_two ao_h2_fields0
  by (simp add: bindE_def radial_h2_sum_grad harmonics_s_sum_grad unpackSS_def sum_gradient_kernel_def
      ao_h2_fields0 tmap2_def bcast_def Let_def)

lemma ao_h2_forward_sum_grad:
  "forward ao_h2 [[a, b, c, d, e, f]] (PInt 1) True True False
     = (Inr (AO [[[- exp (- sqrt (a * a + b * b + c * c)) / sqrt (a * a + b * b + c * c) * (a + b + c) * 0.2820948],
             [- exp (- sqrt (d * d + e * e + f * f)) / sqrt (d * d + e * e + f * f) * (d + e + f) * 0.2820948]]]), ao_h2)"
  by (simp add: forward_def as_list_def py_in_def bindE_def Let_def compute_first_derivative_ao_values_def
      compute_sum_gradient_h2_two)

lemma ao_h2_grad_old:
  "forward ao_h2 [[1, 0, 0, 0, 0, 2]] (PInt 1) True True False
     = (Inr (AO [[[- (exp (- 1) * 0.2820948)], [- (exp (- 2) * 0.2820948)]]]), ao_h2)"
  using ao_h2_forward_sum_grad[of 1 0 0 0 0 2] by simp

lemma ao_h2_grad_new:
  "forward ao_h2 [[2, 0, 0, 0, 0, 2]] (PInt 1) True True False
     = (Inr (AO [[[- (exp (- 2) * 0.2820948)], [- (exp (- 2) * 0.2820948)]]]), ao_h2)"
  using ao_h2_forward_sum_grad[of 2 0 0 0 0 2] by simp

lemma ao_h2_update_grad_eval:
  "update ao_h2 [[[[- (exp (- 1) * 0.2820948)], [- (exp (- 2) * 0.2820948)]]]] 0 [[2, 0, 0, 0, 0, 2]] 0
     = (Inr 1, [[[[- (exp (- 1) * 0.2820948)], [- (exp (- 2) * 0.2820948)]]],
                [[[exp (- 2) * 0.2820948], [- (exp (- 2) * 0.2820948)]]]], ao_h2)"
proof -
  have fw: "forward ao_h2 (map (\<lambda>row. take 3 (drop (0 * 3) row)) [[2, 0, 0, 0, 0, 2]]) (PList [0]) True True True
              = (Inr (AO [[[exp (- 2) * 0.2820948]]]), ao_h2)"
    using ao_h2_forward_one[of 2 0 0] by simp
  have sq: "squeeze1 [[[exp (- 2) * 0.2820948]]] = Inr [[exp (- 2) * 0.2820948 :: real]]"
    by (simp add: squeeze1_def)
  have asg: "assign_elec ([[[[- (exp (- 1) * 0.2820948)], [- (exp (- 2) * 0.2820948)]]]] ! 0) 0 [[exp (- 2) * 0.2820948]]
               = Inr [[[exp (- 2) * 0.2820948], [- (exp (- 2) * 0.2820948 :: real)]]]"
    by (simp add: assign_elec_def bc_def bindE_def)
  show ?thesis using update_unfold[OF fw sq asg] by simp
qed

lemma ao_h2_inv: "ao_inv ao_h2"
  by (simp add: ao_inv_def ao_h2_def nbas_def contract_flag_def harmonics_inv_def harmonics_s_def)

lemma ao_h2_ao_row: "ao_row ao_h2 (x, y, z) = [exp (- sqrt (x * x + y * y + z * z)) * 0.2820948]"
  by (simp add: ao_row_def ao_h2_def vsub_def vmul_def vsum_def harm_row_def harmonics_s_def
      radial_slater_pure_def sh1_l0 Let_def)

lemma ao_h2_forward_value_two:
  "forward ao_h2 [[a, b, c, d, e, f]] (PList [0]) True True False
     = (Inr (AO [[[exp (- sqrt (a * a + b * b + c * c)) * 0.2820948],
                  [exp (- sqrt (d * d + e * e + f * f)) * 0.2820948]]]), ao_h2)"
proof -
  have sh: "\<forall>row \<in> set [[a, b, c, d, e, f]]. length row = 3 * nelec ao_h2"
    by (simp add: ao_h2_def)
  show ?thesis
    unfolding forward_value_ok[OF ao_h2_inv sh] by (simp add: electrons2 ao_h2_ao_row)
qed

text \<open>
  C4, as stated (the incremental update equals the full recomputation for every
  derivative order), is false: \<^verbatim>\<open>update\<close> takes no derivative argument and always calls
  \<^verbatim>\<open>self.forward(pos[:, ids:ide], one_elec=True)\<close>, the values (derivative order 0).
  Applied to a previously computed summed gradient (\<^verbatim>\<open>derivative=1\<close>) it writes the value
  of the moved electron into the gradient tensor.  Below, electron 0 of the two-electron
  object moves from (1, 0, 0) to (2, 0, 0): the tensor \<^verbatim>\<open>update\<close> returns holds
  \<open>exp (-2) * 0.2820948\<close> for electron 0, the gradient recomputed from scratch holds
  \<open>- exp (-2) * 0.2820948\<close>.
\<close>

theorem update_derivative_order_counterexample:
  "forward ao_h2 [[1, 0, 0, 0, 0, 2]] (PInt 1) True True False
     = (Inr (AO [[[- (exp (- 1) * 0.2820948)], [- (exp (- 2) * 0.2820948)]]]), ao_h2)
   \<and> update ao_h2 [[[[- (exp (- 1) * 0.2820948)], [- (exp (- 2) * 0.2820948)]]]] 0 [[2, 0, 0, 0, 0, 2]] 0
     = (Inr 1, [[[[- (exp (- 1) * 0.2820948)], [- (exp (- 2) * 0.2820948)]]],
                [[[exp (- 2) * 0.2820948], [- (exp (- 2) * 0.2820948)]]]], ao_h2)
   \<and> forward ao_h2 [[2, 0, 0, 0, 0, 2]] (PInt 1) True True False
     = (Inr (AO [[[- (exp (- 2) * 0.2820948)], [- (exp (- 2) * 0.2820948)]]]), ao_h2)
   \<and> [[[exp (- 2) * 0.2820948], [- (exp (- 2) * 0.2820948)]]]
       \<noteq> [[[- (exp (- 2) * 0.2820948)], [- (exp (- 2) * 0.2820948 :: real)]]]"
  using ao_h2_grad_old ao_h2_grad_new ao_h2_update_grad_eval by simp

text \<open>
  C4, amended to derivative order 0: let \<open>self\<close> be a well-formed object, \<open>pos_old\<close> and
  \<open>pos_new\<close> two position batches of the same size with rows of \<open>3 * nelec\<close> coordinates
  that differ only in the coordinates of electron \<open>idelec\<close>, and let the tensor passed to
  \<^verbatim>\<open>update\<close> be the values \<^verbatim>\<open>forward(pos_old)\<close>.  Then \<^verbatim>\<open>forward(pos_new)\<close> returns a
  tensor \<open>T\<close>, and \<^verbatim>\<open>update(ao, pos_new, idelec)\<close> returns a new tensor equal to \<open>T\<close>.
\<close>

theorem update_value_equals_recompute:
  assumes inv: "ao_inv self"
    and sh_old: "\<forall>row \<in> set pos_old. length row = 3 * nelec self"
    and sh_new: "\<forall>row \<in> set pos_new. length row = 3 * nelec self"
    and len: "length pos_new = length pos_old"
    and i: "idelec < nelec self"
    and same: "\<forall>b < length pos_old. \<forall>k < 3 * nelec self.
                 k div 3 \<noteq> idelec \<longrightarrow> pos_new ! b ! k = pos_old ! b ! k"
    and a: "a < length st"
    and old: "fst (forward self pos_old (PList [0]) True True False) = Inr (AO (st ! a))"
  shows "\<exists>T. forward self pos_new (PList [0]) True True False = (Inr (AO T), self)
           \<and> update self st a pos_new idelec = (Inr (length st), st @ [T], self)"
proof -
  define T where "T = map (map (ao_row self)) (map electrons pos_new)"
  define V where "V = map (\<lambda>row. [ao_row self (electrons row ! idelec)]) pos_new"
  define vals where "vals = map (\<lambda>row. ao_row self (electrons row ! idelec)) pos_new"
  have sta: "st ! a = map (map (ao_row self)) (map electrons pos_old)"
    using old forward_value_ok[OF inv sh_old] by simp
  have fT: "forward self pos_new (PList [0]) True True False = (Inr (AO T), self)"
    unfolding T_def by (rule forward_value_ok[OF inv sh_new])
  have fw: "forward self (map (\<lambda>row. take 3 (drop (idelec * 3) row)) pos_new) (PList [0]) True True True
              = (Inr (AO V), self)"
    unfolding V_def by (rule forward_one_ok[OF inv sh_new i])
  have sq: "squeeze1 V = Inr vals"
    using squeeze1_ok[of V] by (simp add: V_def vals_def comp_def)
  have lo: "length (electrons (pos_old ! b)) = nelec self" if "b < length pos_old" for b
    using that sh_old by (simp add: length_electrons_ne)
  have ln: "length (electrons (pos_new ! b)) = nelec self" if "b < length pos_old" for b
    using that sh_new len by (simp add: length_electrons_ne)
  have asg: "assign_elec (st ! a) idelec vals
               = Inr (map2 (\<lambda>b v. b[idelec := v]) (st ! a) vals)"
  proof (rule assign_elec_ok)
    show "length vals = length (st ! a)" by (simp add: vals_def sta len)
    show "\<forall>b < length (st ! a). idelec < length (st ! a ! b)
            \<and> length (vals ! b) = length (st ! a ! b ! idelec)"
      using i len lo by (simp add: sta vals_def length_ao_row[OF inv])
  qed
  have eqT: "map2 (\<lambda>b v. b[idelec := v]) (st ! a) vals = T"
  proof (rule nth_equalityI)
    show "length (map2 (\<lambda>b v. b[idelec := v]) (st ! a) vals) = length T"
      by (simp add: sta vals_def T_def len)
    fix b assume "b < length (map2 (\<lambda>b v. b[idelec := v]) (st ! a) vals)"
    then have b: "b < length pos_old" by (simp add: sta vals_def len)
    have ro: "length (pos_old ! b) = 3 * nelec self" and rn: "length (pos_new ! b) = 3 * nelec self"
      using b sh_old sh_new len by simp_all
    have el: "electrons (pos_new ! b) ! j = electrons (pos_old ! b) ! j"
      if "j < nelec self" "j \<noteq> idelec" for j
    proof -
      have "3 * j < 3 * nelec self" "3 * j + 1 < 3 * nelec self" "3 * j + 2 < 3 * nelec self"
        using that(1) by simp_all
      moreover have "(3 * j) div 3 \<noteq> idelec" "(3 * j + 1) div 3 \<noteq> idelec" "(3 * j + 2) div 3 \<noteq> idelec"
        using that(2) by simp_all
      ultimately have "pos_new ! b ! (3 * j) = pos_old ! b ! (3 * j)"
        "pos_new ! b ! (3 * j + 1) = pos_old ! b ! (3 * j + 1)"
        "pos_new ! b ! (3 * j + 2) = pos_old ! b ! (3 * j + 2)"
        using same b by blast+
      then show ?thesis
        by (simp add: electrons_nth[OF ro that(1)] electrons_nth[OF rn that(1)])
    qed
    have "(map (ao_row self) (electrons (pos_old ! b)))[idelec := ao_row self (electrons (pos_new ! b) ! idelec)]
            = map (ao_row self) (electrons (pos_new ! b))"
    proof (rule nth_equalityI)
      show "length ((map (ao_row self) (electrons (pos_old ! b)))[idelec := ao_row self (electrons (pos_new ! b) ! idelec)])
              = length (map (ao_row self) (electrons (pos_new ! b)))"
        by (simp add: lo[OF b] ln[OF b])
      fix j assume "j < length ((map (ao_row self) (electrons (pos_old ! b)))[idelec := ao_row self (electrons (pos_new ! b) ! idelec)])"
      then have j: "j < nelec self" by (simp add: lo[OF b])
      show "(map (ao_row self) (electrons (pos_old ! b)))[idelec := ao_row self (electrons (pos_new ! b) ! idelec)] ! j
              = map (ao_row self) (electrons (pos_new ! b)) ! j"
        using j el[of j] by (cases "j = idelec") (simp_all add: lo[OF b] ln[OF b] nth_list_update)
    qed
    then show "map2 (\<lambda>b v. b[idelec := v]) (st ! a) vals ! b = T ! b"
      using b len by (simp add: sta vals_def T_def)
  qed
  have u: "update self st a pos_new idelec = (Inr (length st), st @ [T], self)"
    using update_unfold[OF fw sq _ a] asg eqT by simp
  show ?thesis using fT u by blast
qed

theorem update_value_equals_recompute_witness:
  "forward ao_h2 [[2, 0, 0, 0, 0, 2]] (PList [0]) True True False
     = (Inr (AO [[[exp (- 2) * 0.2820948], [exp (- 2) * 0.2820948]]]), ao_h2)
   \<and> update ao_h2 [[[[exp (- 1) * 0.2820948], [exp (- 2) * 0.2820948]]]] 0 [[2, 0, 0, 0, 0, 2]] 0
     = (Inr 1, [[[[exp (- 1) * 0.2820948], [exp (- 2) * 0.2820948]]],
                [[[exp (- 2) * 0.2820948], [exp (- 2) * 0.2820948]]]], ao_h2)"
proof -
  let ?old = "[[1, 0, 0, 0, 0, 2 :: real]]"
  let ?new = "[[2, 0, 0, 0, 0, 2 :: real]]"
  let ?st = "[[[[exp (- 1) * 0.2820948], [exp (- 2) * 0.2820948 :: real]]]]"
  have sh_old: "\<forall>row \<in> set ?old. length row = 3 * nelec ao_h2" by (simp add: ao_h2_def)
  have sh_new: "\<forall>row \<in> set ?new. length row = 3 * nelec ao_h2" by (simp add: ao_h2_def)
  have len: "length ?new = length ?old" by simp
  have i: "0 < nelec ao_h2" by (simp add: ao_h2_def)
  have same: "\<forall>b < length ?old. \<forall>k < 3 * nelec ao_h2. k div 3 \<noteq> 0 \<longrightarrow> ?new ! b ! k = ?old ! b ! k"
    by (simp add: nth_Cons')
  have a: "0 < length ?st" by simp
  have old: "fst (forward ao_h2 ?old (PList [0]) True True False) = Inr (AO (?st ! 0))"
    using ao_h2_forward_value_two[of 1 0 0 0 0 2] by simp
  from update_value_equals_recompute[OF ao_h2_inv sh_old sh_new len i same a old]
  obtain T where f: "forward ao_h2 ?new (PList [0]) True True False = (Inr (AO T), ao_h2)"
    and u: "update ao_h2 ?st 0 ?new 0 = (Inr (length ?st), ?st @ [T], ao_h2)"
    by blast
  from f have T: "T = [[[exp (- 2) * 0.2820948], [exp (- 2) * 0.2820948]]]"
    using ao_h2_forward_value_two[of 2 0 0 0 0 2] by simp
  show ?thesis using f u unfolding T by simp
qed

end
